theory Spec2Isabelle
  imports Main "HOL-Library.Word"
begin

section \<open>The flatbuffer tensor converter: data\<close>

text \<open>
  The embedding follows \<^verbatim>\<open>tensor_converter_flatbuf.cc\<close>. Machine integers keep their
  width where the source names one: \<^verbatim>\<open>guint\<close> is a 32-bit word and \<^verbatim>\<open>gsize\<close> the 64-bit
  size type of an LP64 target. The frame rate is only copied, never computed with, and is
  an \<open>int\<close>.
\<close>

type_synonym guint = "32 word"
type_synonym gsize = "64 word"

text \<open>
  Modelled from the spec: the limits \<^verbatim>\<open>NNS_TENSOR_SIZE_LIMIT\<close> and
  \<^verbatim>\<open>NNS_TENSOR_RANK_LIMIT\<close> are macros of a header that is not under src/; the
  values are the ones the spec names (16 tensors, rank 4).
\<close>

definition NNS_TENSOR_SIZE_LIMIT :: nat where
  "NNS_TENSOR_SIZE_LIMIT = 16"

definition NNS_TENSOR_RANK_LIMIT :: nat where
  "NNS_TENSOR_RANK_LIMIT = 4"

text \<open>
  Modelled from the spec: the enumeration of element types is declared outside src/, once
  for the configuration (\<^verbatim>\<open>tensor_type\<close>) and once by the schema (\<^verbatim>\<open>Tensor_type\<close>);
  both list the same tags, so the cast of line 131 keeps the tag and one datatype stands
  for both.
\<close>

datatype tensor_type =
    NNS_INT32 | NNS_UINT32 | NNS_INT16 | NNS_UINT16 | NNS_INT8 | NNS_UINT8
  | NNS_FLOAT64 | NNS_FLOAT32 | NNS_INT64 | NNS_UINT64 | NNS_END

text \<open>
  \<^verbatim>\<open>GstTensorInfo\<close> and \<^verbatim>\<open>GstTensorsConfig\<close>: a name that may be \<^verbatim>\<open>NULL\<close>, a
  type tag and the array of dimensions; the configuration holds the array of these, the
  number of tensors in use and the frame rate. The arrays are lists, and an access past
  the end of a list is a fault of the model (it is an overrun of the C array).
\<close>

record GstTensorInfo =
  name :: "string option"
  type :: tensor_type
  dimension :: "32 word list"

record GstTensorsConfig =
  num_tensors :: guint
  info :: "GstTensorInfo list"
  rate_n :: int
  rate_d :: int

text \<open>
  The container as the generated accessors present it. A pointer-valued accessor gives
  \<open>None\<close> for a null pointer (the field is absent). A byte vector is described by where
  its first byte lies relative to the first mapped byte (the difference of the two
  addresses that line 140 computes) and by its length. The declared tensor count is the
  integer the accessor returns.
\<close>

record ByteVector =
  vec_offset :: gsize
  vec_length :: guint

record Tensor =
  Tensor_name :: "string option"
  Tensor_type :: tensor_type
  Tensor_dimension :: "32 word list option"
  Tensor_data :: "ByteVector option"

record frame_rate =
  fr_rate_n :: int
  fr_rate_d :: int

record Tensors =
  num_tensor :: int
  fr :: "frame_rate option"
  tensor :: "Tensor list option"

text \<open>
  Memory blocks and buffers of the host library. A block is either storage of its own
  (the address at which a mapping shows its first byte, its bytes, and whether a read
  mapping of it succeeds) or a share of a region of another block. A buffer is a list of
  blocks with its timestamps.
\<close>

datatype GstMemory =
    SysMem gsize "8 word list" bool
  | Share GstMemory gsize gsize

record GstBuffer =
  memory :: "GstMemory list"
  pts :: "64 word"
  dts :: "64 word"
  duration :: "64 word"
  buf_offset :: "64 word"
  buf_offset_end :: "64 word"

text \<open>
  How a call can end without returning: the assertion of line 111 fails, a null pointer
  is dereferenced (the name, the shape or the frame rate is absent), or a vector or
  array is read or written past its end.
\<close>

datatype fault = AssertionFailed | NullPointer | OutOfRange

section \<open>Library calls\<close>

fun gst_memory_map :: "GstMemory \<Rightarrow> 8 word list option" where
  "gst_memory_map (SysMem addr bytes ok) = (if ok then Some bytes else None)"
| "gst_memory_map (Share m off sz) =
     (case gst_memory_map m of
        None \<Rightarrow> None
      | Some bytes \<Rightarrow> Some (take (unat sz) (drop (unat off) bytes)))"

text \<open>The address of the first mapped byte, \<^verbatim>\<open>in_info.data\<close>.\<close>

fun mapped_address :: "GstMemory \<Rightarrow> gsize" where
  "mapped_address (SysMem addr bytes ok) = addr"
| "mapped_address (Share m off sz) = mapped_address m + off"

definition gst_buffer_peek_memory :: "GstBuffer \<Rightarrow> nat \<Rightarrow> GstMemory option" where
  "gst_buffer_peek_memory buf idx =
     (if idx < length (memory buf) then Some (memory buf ! idx) else None)"

definition gst_memory_share :: "GstMemory \<Rightarrow> gsize \<Rightarrow> gsize \<Rightarrow> GstMemory" where
  "gst_memory_share mem off sz = Share mem off sz"

definition GST_CLOCK_TIME_NONE :: "64 word" where
  "GST_CLOCK_TIME_NONE = - 1"

definition GST_BUFFER_OFFSET_NONE :: "64 word" where
  "GST_BUFFER_OFFSET_NONE = - 1"

definition gst_buffer_new :: GstBuffer where
  "gst_buffer_new =
     \<lparr>memory = [], pts = GST_CLOCK_TIME_NONE, dts = GST_CLOCK_TIME_NONE,
      duration = GST_CLOCK_TIME_NONE, buf_offset = GST_BUFFER_OFFSET_NONE,
      buf_offset_end = GST_BUFFER_OFFSET_NONE\<rparr>"

definition gst_buffer_append_memory :: "GstBuffer \<Rightarrow> GstMemory \<Rightarrow> GstBuffer" where
  "gst_buffer_append_memory buf mem = buf\<lparr>memory := memory buf @ [mem]\<rparr>"

text \<open>\<^verbatim>\<open>gst_buffer_copy_into\<close> with \<^verbatim>\<open>GST_BUFFER_COPY_METADATA\<close>: the timestamps of
  the source buffer replace those of the destination; the memory blocks stay.\<close>

definition gst_buffer_copy_into :: "GstBuffer \<Rightarrow> GstBuffer \<Rightarrow> GstBuffer" where
  "gst_buffer_copy_into dest src =
     dest\<lparr>pts := pts src, dts := dts src, duration := duration src,
          buf_offset := buf_offset src, buf_offset_end := buf_offset_end src\<rparr>"

text \<open>\<^verbatim>\<open>Vector::Get\<close> of the container library, and \<^verbatim>\<open>VectorLength\<close>, which accepts a
  null vector.\<close>

definition Vector_Get :: "'a list \<Rightarrow> nat \<Rightarrow> fault + 'a" where
  "Vector_Get v i = (if i < length v then Inr (v ! i) else Inl OutOfRange)"

definition VectorLength :: "ByteVector option \<Rightarrow> guint" where
  "VectorLength v = (case v of None \<Rightarrow> 0 | Some d \<Rightarrow> vec_length d)"

text \<open>
  \<^verbatim>\<open>tensor_data->data () - in_info.data\<close> of line 140. For a vector that is there it is
  the offset the container gives. A null vector is not dereferenced: \<^verbatim>\<open>data ()\<close> only
  adds the size of the length field, four bytes, to the null address, and the difference
  to the address of the mapped bytes is taken all the same.
\<close>

definition NULL_VECTOR_DATA :: gsize where
  "NULL_VECTOR_DATA = 4"

definition Vector_data_offset :: "GstMemory \<Rightarrow> ByteVector option \<Rightarrow> gsize" where
  "Vector_data_offset in_mem v =
     (case v of
        None \<Rightarrow> NULL_VECTOR_DATA - mapped_address in_mem
      | Some d \<Rightarrow> vec_offset d)"

text \<open>The C string that \<^verbatim>\<open>strlen\<close> and \<^verbatim>\<open>g_strdup\<close> read at a pointer: the
  characters before the first NUL.\<close>

definition c_str :: "string \<Rightarrow> string" where
  "c_str s = takeWhile (\<lambda>c. c \<noteq> CHR 0x00) s"

text \<open>
  Lines 128 to 130. The pointer \<^verbatim>\<open>name\<close> is taken from the temporary string that
  \<^verbatim>\<open>str ()\<close> returns, and that string is destroyed at the end of line 128, before
  line 130 reads through the pointer. A string of up to 15 characters (the local
  capacity of the library's string type) lies inside the string object itself, where
  line 130 still finds it. A longer one lies in a buffer of its own, which is freed with
  the temporary: line 130 then reads whatever the allocator has left there,
  \<open>left\<close>, and not the name.
\<close>

definition STRING_LOCAL_CAPACITY :: nat where
  "STRING_LOCAL_CAPACITY = 15"

definition chars_at_destroyed :: "string \<Rightarrow> string \<Rightarrow> string" where
  "chars_at_destroyed left s = (if length s \<le> STRING_LOCAL_CAPACITY then s else left)"

definition stored_name :: "string \<Rightarrow> string \<Rightarrow> string option" where
  "stored_name left s =
     (let nm = c_str (chars_at_destroyed left s)
      in if length nm > 0 then Some nm else None)"

section \<open>fbc_convert\<close>

text \<open>The state the loop of lines 126 to 145 works on, and what the caller sees when
  the call returns: the returned pointer, the two out-parameters, the configuration and
  whether the read mapping of the input block is still held.\<close>

record conv_state =
  st_config :: GstTensorsConfig
  st_out_buf :: GstBuffer
  st_frame_size :: gsize

record convert_result =
  ret :: "GstBuffer option"
  frame_size_out :: gsize
  frames_in_out :: guint
  config_out :: GstTensorsConfig
  in_mapped :: bool

text \<open>The inner loop of lines 134 to 136, from index \<open>j\<close> on.\<close>

function copy_dimension :: "32 word list \<Rightarrow> nat \<Rightarrow> 32 word list \<Rightarrow> fault + 32 word list" where
  "copy_dimension src j dst =
     (if j < NNS_TENSOR_RANK_LIMIT then
        (case Vector_Get src j of
           Inl e \<Rightarrow> Inl e
         | Inr d \<Rightarrow>
             if j < length dst then copy_dimension src (Suc j) (dst[j := d])
             else Inl OutOfRange)
      else Inr dst)"
  by pat_completeness auto
termination
  by (relation "measure (\<lambda>(src, j, dst). NNS_TENSOR_RANK_LIMIT - j)") auto

declare copy_dimension.simps [simp del]

text \<open>One pass of the loop body, lines 127 to 144, for tensor \<open>i\<close>.
  \<open>freed_chars i\<close> is what the freed buffer of the name holds when line 130 reads it
  in this pass.\<close>

definition convert_tensor ::
  "(nat \<Rightarrow> string) \<Rightarrow> GstMemory \<Rightarrow> Tensor list option \<Rightarrow> nat \<Rightarrow> conv_state
     \<Rightarrow> fault + conv_state" where
  "convert_tensor freed_chars in_mem tensor_vec i st =
     (case tensor_vec of
        None \<Rightarrow> Inl NullPointer
      | Some ts \<Rightarrow>
     (case Vector_Get ts i of
        Inl e \<Rightarrow> Inl e
      | Inr t \<Rightarrow>
     (case Tensor_name t of
        None \<Rightarrow> Inl NullPointer
      | Some s \<Rightarrow>
     (if \<not> i < length (info (st_config st)) then Inl OutOfRange
      else
        let inf = (info (st_config st) ! i)
                    \<lparr>name := stored_name (freed_chars i) s, type := Tensor_type t\<rparr>;
            tensor_data = Tensor_data t
        in
     (case Tensor_dimension t of
        None \<Rightarrow> Inl NullPointer
      | Some dims \<Rightarrow>
     (case copy_dimension dims 0 (dimension inf) of
        Inl e \<Rightarrow> Inl e
      | Inr dim \<Rightarrow>
        let mem_size = VectorLength tensor_data;
            fs = st_frame_size st + ucast mem_size;
            offset = Vector_data_offset in_mem tensor_data;
            out_mem = gst_memory_share in_mem offset (ucast mem_size)
        in Inr \<lparr>st_config = (st_config st)\<lparr>info := (info (st_config st))[i := inf\<lparr>dimension := dim\<rparr>]\<rparr>,
                st_out_buf = gst_buffer_append_memory (st_out_buf st) out_mem,
                st_frame_size = fs\<rparr>))))))"

text \<open>The loop of line 126, from index \<open>i\<close> on; its bound is read from the
  configuration at every test, as in the source.\<close>

function convert_loop ::
  "(nat \<Rightarrow> string) \<Rightarrow> GstMemory \<Rightarrow> Tensor list option \<Rightarrow> nat \<Rightarrow> conv_state
     \<Rightarrow> fault + conv_state" where
  "convert_loop freed_chars in_mem tensor_vec i st =
     (if i < unat (num_tensors (st_config st)) then
        (case convert_tensor freed_chars in_mem tensor_vec i st of
           Inl e \<Rightarrow> Inl e
         | Inr st' \<Rightarrow> convert_loop freed_chars in_mem tensor_vec (Suc i) st')
      else Inr st)"
  by pat_completeness auto
termination
proof (relation "measure (\<lambda>(freed_chars, in_mem, tensor_vec, i, st).
    unat (num_tensors (st_config st)) - i)")
  show "wf (measure (\<lambda>(freed_chars, in_mem, tensor_vec, i, st).
      unat (num_tensors (st_config st)) - i))"
    by simp
next
  fix freed_chars :: "nat \<Rightarrow> string" and in_mem :: GstMemory
    and tensor_vec :: "Tensor list option" and i :: nat and st st' :: conv_state
  assume lt: "i < unat (num_tensors (st_config st))"
    and step: "convert_tensor freed_chars in_mem tensor_vec i st = Inr st'"
  have "convert_tensor freed_chars in_mem tensor_vec i st = Inr st' \<longrightarrow>
      num_tensors (st_config st') = num_tensors (st_config st)"
    unfolding convert_tensor_def Let_def
    by (simp split: option.split sum.split) auto
  with step lt show "((freed_chars, in_mem, tensor_vec, Suc i, st'),
        (freed_chars, in_mem, tensor_vec, i, st))
      \<in> measure (\<lambda>(freed_chars, in_mem, tensor_vec, i, st).
          unat (num_tensors (st_config st)) - i)"
    by simp
qed

declare convert_loop.simps [simp del]

text \<open>The label \<^verbatim>\<open>done\<close>, lines 150 to 153: the mapping is released and the buffer
  pointer returned.\<close>

definition fbc_convert_done ::
  "GstBuffer option \<Rightarrow> gsize \<Rightarrow> guint \<Rightarrow> GstTensorsConfig \<Rightarrow> convert_result" where
  "fbc_convert_done out frame_size frames_in config =
     \<lparr>ret = out, frame_size_out = frame_size, frames_in_out = frames_in,
      config_out = config, in_mapped = False\<rparr>"

text \<open>
  \<^verbatim>\<open>fbc_convert\<close>. The generated reader \<^verbatim>\<open>GetTensors\<close> is not under src/ and is a
  parameter: it takes the mapped bytes and gives the root of the container, or \<open>None\<close>
  for a null root. \<open>freed_chars\<close> is the state of freed memory that the reads of line
  130 meet. \<open>frame_size\<close> and \<open>frames_in\<close> are the values of the two out-parameters
  at entry. A buffer without a first block gives a null block, whose
  mapping fails as that of an unreadable block does (line 105). Sharing a block is taken
  to succeed. A fault carries no state: the call has not returned.
\<close>

definition fbc_convert ::
  "(8 word list \<Rightarrow> Tensors option) \<Rightarrow> (nat \<Rightarrow> string) \<Rightarrow> GstBuffer \<Rightarrow> gsize \<Rightarrow> guint
     \<Rightarrow> GstTensorsConfig \<Rightarrow> fault + convert_result" where
  "fbc_convert GetTensors freed_chars in_buf frame_size frames_in config =
     (case gst_buffer_peek_memory in_buf 0 of
        None \<Rightarrow>
          Inr \<lparr>ret = None, frame_size_out = frame_size, frames_in_out = frames_in,
               config_out = config, in_mapped = False\<rparr>
      | Some in_mem \<Rightarrow>
     (case gst_memory_map in_mem of
        None \<Rightarrow>
          Inr \<lparr>ret = None, frame_size_out = frame_size, frames_in_out = frames_in,
               config_out = config, in_mapped = False\<rparr>
      | Some in_info \<Rightarrow>
     (case GetTensors in_info of
        None \<Rightarrow> Inl AssertionFailed
      | Some tensors \<Rightarrow>
        let config1 = config\<lparr>num_tensors := word_of_int (num_tensor tensors)\<rparr> in
        if num_tensor tensors > int NNS_TENSOR_SIZE_LIMIT then
          Inr (fbc_convert_done None frame_size frames_in config1)
        else
     (case fr tensors of
        None \<Rightarrow> Inl NullPointer
      | Some f \<Rightarrow>
        let config2 = config1\<lparr>rate_n := fr_rate_n f, rate_d := fr_rate_d f\<rparr> in
     (case convert_loop freed_chars in_mem (tensor tensors) 0
             \<lparr>st_config = config2, st_out_buf = gst_buffer_new, st_frame_size = 0\<rparr> of
        Inl e \<Rightarrow> Inl e
      | Inr st \<Rightarrow>
          Inr (fbc_convert_done (Some (gst_buffer_copy_into (st_out_buf st) in_buf))
                 (st_frame_size st) 1 (st_config st)))))))"

section \<open>fbc_get_out_config\<close>

text \<open>The negotiated capabilities: a list of structures, each a list of named fields;
  a field holds a fraction or a value of another type.\<close>

datatype GValue = G_FRACTION int int | G_OTHER

type_synonym GstStructure = "(string \<times> GValue) list"

type_synonym GstCaps = "GstStructure list"

definition gst_caps_get_structure :: "GstCaps \<Rightarrow> nat \<Rightarrow> GstStructure option" where
  "gst_caps_get_structure caps idx = (if idx < length caps then Some (caps ! idx) else None)"

definition gst_structure_has_field :: "GstStructure \<Rightarrow> string \<Rightarrow> bool" where
  "gst_structure_has_field structure field = (map_of structure field \<noteq> None)"

definition gst_structure_get_fraction :: "GstStructure \<Rightarrow> string \<Rightarrow> (int \<times> int) option" where
  "gst_structure_get_fraction structure field =
     (case map_of structure field of
        Some (G_FRACTION n d) \<Rightarrow> Some (n, d)
      | _ \<Rightarrow> None)"

text \<open>
  Modelled from the spec: \<^verbatim>\<open>gst_tensors_config_init\<close> is code of the host library that
  is not under src/. It leaves an empty configuration: no tensors, every entry without
  name, type or dimensions, and an unset frame rate.
\<close>

definition gst_tensor_info_init :: GstTensorInfo where
  "gst_tensor_info_init =
     \<lparr>name = None, type = NNS_END, dimension = replicate NNS_TENSOR_RANK_LIMIT 0\<rparr>"

definition gst_tensors_config_init :: GstTensorsConfig where
  "gst_tensors_config_init =
     \<lparr>num_tensors = 0, info = replicate NNS_TENSOR_SIZE_LIMIT gst_tensor_info_init,
      rate_n = - 1, rate_d = - 1\<rparr>"

text \<open>
  Modelled from the spec: \<^verbatim>\<open>gst_tensor_parse_dimension\<close> is code of the host library
  that is not under src/. A shape is written as decimal fields separated by colons; the
  fields up to the rank limit are read until an empty one, the ranks that remain are
  padded with 1, and the number of fields read is returned with the shape.
\<close>

fun split_colon :: "string \<Rightarrow> string \<Rightarrow> string list" where
  "split_colon cur [] = [cur]"
| "split_colon cur (c # cs) =
     (if c = CHR '':'' then cur # split_colon [] cs else split_colon (cur @ [c]) cs)"

definition is_digit :: "char \<Rightarrow> bool" where
  "is_digit c = (48 \<le> (of_char c :: nat) \<and> (of_char c :: nat) \<le> 57)"

definition strtoull :: "string \<Rightarrow> nat" where
  "strtoull s = foldl (\<lambda>a c. 10 * a + (of_char c - 48)) 0 (takeWhile is_digit s)"

definition gst_tensor_parse_dimension :: "string \<Rightarrow> nat \<times> 32 word list" where
  "gst_tensor_parse_dimension dimstr =
     (let strv = take NNS_TENSOR_RANK_LIMIT (split_colon [] dimstr);
          fields = takeWhile (\<lambda>s. s \<noteq> []) strv;
          rank = length fields
      in (rank, map (\<lambda>s. of_nat (strtoull s)) fields
                  @ replicate (NNS_TENSOR_RANK_LIMIT - rank) 1))"

text \<open>\<^verbatim>\<open>fbc_get_out_config\<close>, lines 59 to 86: the returned flag, and the configuration
  behind the pointer (\<open>None\<close> for a null pointer).\<close>

definition fbc_get_out_config ::
  "GstCaps option \<Rightarrow> GstTensorsConfig option \<Rightarrow> bool \<times> GstTensorsConfig option" where
  "fbc_get_out_config in_cap config =
     (case config of
        None \<Rightarrow> (False, None)
      | Some _ \<Rightarrow>
        let c = gst_tensors_config_init in
     (case in_cap of
        None \<Rightarrow> (False, Some c)
      | Some caps \<Rightarrow>
     (case gst_caps_get_structure caps 0 of
        None \<Rightarrow> (False, Some c)
      | Some structure \<Rightarrow>
        let c1 = c\<lparr>info := (info c)[0 := (info c ! 0)\<lparr>type := NNS_UINT8\<rparr>]\<rparr>;
            c2 = c1\<lparr>num_tensors := 1\<rparr>;
            (rank, dim) = gst_tensor_parse_dimension ''1:1:1:1'';
            c3 = c2\<lparr>info := (info c2)[0 := (info c2 ! 0)\<lparr>dimension := dim\<rparr>]\<rparr>
        in
          if rank = 0 then (False, Some c3)
          else if gst_structure_has_field structure ''framerate'' then
            (case gst_structure_get_fraction structure ''framerate'' of
               None \<Rightarrow> (True, Some c3)
             | Some (n, d) \<Rightarrow> (True, Some (c3\<lparr>rate_n := n, rate_d := d\<rparr>)))
          else (True, Some (c3\<lparr>rate_n := 0, rate_d := 1\<rparr>)))))"

section \<open>Well-formed containers and sample frames\<close>

text \<open>The records of a container; an absent tensor vector counts as an empty one.\<close>

definition vector_items :: "'a list option \<Rightarrow> 'a list" where
  "vector_items v = (case v of None \<Rightarrow> [] | Some xs \<Rightarrow> xs)"

definition records :: "Tensors \<Rightarrow> Tensor list" where
  "records t = vector_items (tensor t)"

text \<open>What the loop needs of a container in order to return: a frame rate, a tensor
  vector of the declared length, and in every record a name and a shape of the rank
  limit.\<close>

definition readable_tensor :: "Tensor \<Rightarrow> bool" where
  "readable_tensor x =
     ((case Tensor_name x of None \<Rightarrow> False | Some s \<Rightarrow> True)
      \<and> (case Tensor_dimension x of
            None \<Rightarrow> False
          | Some ds \<Rightarrow> length ds = NNS_TENSOR_RANK_LIMIT))"

definition readable :: "Tensors \<Rightarrow> bool" where
  "readable t =
     ((case fr t of None \<Rightarrow> False | Some f \<Rightarrow> True)
      \<and> num_tensor t = int (length (records t))
      \<and> list_all readable_tensor (records t))"

text \<open>
  Well-formedness follows the data model of the spec (section 3): the tensor vector has
  as many records as the container declares, the frame rate is present, and every record
  has a name (possibly empty) that is a C string, a shape of exactly the rank limit and
  a payload vector. Where the payloads lie is not part of it; that is
  \<open>payload_in_bounds\<close> below.
\<close>

definition well_formed_tensor :: "Tensor \<Rightarrow> bool" where
  "well_formed_tensor x =
     ((case Tensor_name x of None \<Rightarrow> False | Some s \<Rightarrow> c_str s = s)
      \<and> (case Tensor_dimension x of
            None \<Rightarrow> False
          | Some ds \<Rightarrow> length ds = NNS_TENSOR_RANK_LIMIT)
      \<and> (case Tensor_data x of None \<Rightarrow> False | Some v \<Rightarrow> True))"

definition well_formed :: "Tensors \<Rightarrow> bool" where
  "well_formed t =
     ((case fr t of None \<Rightarrow> False | Some f \<Rightarrow> True)
      \<and> num_tensor t = int (length (records t))
      \<and> list_all well_formed_tensor (records t))"

text \<open>A configuration whose arrays have the sizes the C types give them.\<close>

definition valid_config :: "GstTensorsConfig \<Rightarrow> bool" where
  "valid_config c =
     (length (info c) = NNS_TENSOR_SIZE_LIMIT
      \<and> list_all (\<lambda>inf. length (dimension inf) = NNS_TENSOR_RANK_LIMIT) (info c))"

text \<open>The payload of a record lies within \<open>n\<close> mapped bytes.\<close>

definition payload_in_bounds :: "nat \<Rightarrow> Tensor \<Rightarrow> bool" where
  "payload_in_bounds n x =
     (case Tensor_data x of
        None \<Rightarrow> True
      | Some v \<Rightarrow> unat (vec_offset v) + unat (vec_length v) \<le> n)"

text \<open>The length of a record's payload, and the block that lines 137 to 142 build for
  it: the share of the input block at the payload's offset and of its length.\<close>

definition payload_length :: "Tensor \<Rightarrow> guint" where
  "payload_length x = VectorLength (Tensor_data x)"

definition payload_view :: "GstMemory \<Rightarrow> Tensor \<Rightarrow> GstMemory" where
  "payload_view in_mem x =
     gst_memory_share in_mem (Vector_data_offset in_mem (Tensor_data x))
       (ucast (payload_length x))"

text \<open>A block of the output lies within \<open>n\<close> bytes of the block it shares.\<close>

fun view_in_bounds :: "nat \<Rightarrow> GstMemory \<Rightarrow> bool" where
  "view_in_bounds n (Share m off sz) = (unat off + unat sz \<le> n)"
| "view_in_bounds n (SysMem addr bytes ok) = True"

fun view_size :: "GstMemory \<Rightarrow> nat" where
  "view_size (Share m off sz) = unat sz"
| "view_size (SysMem addr bytes ok) = length bytes"

text \<open>
  Sample frames. The first is the scenario of the spec: frame rate 30/1 and two tensors,
  \<open>a\<close> of type uint8 and an anonymous one of type float32, each of shape 1:1:1:1
  with a payload of four bytes, in a block of 64 zero bytes mapped at address 4096.
\<close>

definition sample_tensor :: "string \<Rightarrow> tensor_type \<Rightarrow> gsize \<Rightarrow> guint \<Rightarrow> Tensor" where
  "sample_tensor nm ty off len =
     \<lparr>Tensor_name = Some nm, Tensor_type = ty, Tensor_dimension = Some [1, 1, 1, 1],
      Tensor_data = Some \<lparr>vec_offset = off, vec_length = len\<rparr>\<rparr>"

definition sample_container :: "Tensor list \<Rightarrow> Tensors" where
  "sample_container ts =
     \<lparr>num_tensor = int (length ts), fr = Some \<lparr>fr_rate_n = 30, fr_rate_d = 1\<rparr>,
      tensor = Some ts\<rparr>"

definition two_tensors :: Tensors where
  "two_tensors =
     sample_container [sample_tensor ''a'' NNS_UINT8 48 4, sample_tensor [] NNS_FLOAT32 56 4]"

definition sample_mem :: GstMemory where
  "sample_mem = SysMem 4096 (replicate 64 0) True"

definition sample_buf :: GstBuffer where
  "sample_buf =
     \<lparr>memory = [sample_mem], pts = 1000, dts = 990, duration = 33, buf_offset = 7,
      buf_offset_end = 8\<rparr>"

definition sample_config :: GstTensorsConfig where
  "sample_config = gst_tensors_config_init\<lparr>num_tensors := 1\<rparr>"

text \<open>A frame whose one payload claims 1000 bytes from offset 48 of the 64 mapped.\<close>

definition overlong_payload :: Tensors where
  "overlong_payload = sample_container [sample_tensor ''a'' NNS_UINT8 48 1000]"

text \<open>Frames declaring 0, 16 and 17 tensors.\<close>

definition no_tensors :: Tensors where
  "no_tensors = sample_container []"


definition seventeen_tensors :: Tensors where
  "seventeen_tensors = sample_container (replicate 17 (sample_tensor ''t'' NNS_UINT8 48 4))"

text \<open>What the reader presents on a block of zero bytes such as \<open>sample_mem\<close>: the
  root table lies at offset 0 and has an empty table of fields, so the count has its
  default 0 and the frame rate and the tensor vector are absent.\<close>

definition zero_block_root :: Tensors where
  "zero_block_root = \<lparr>num_tensor = 0, fr = None, tensor = None\<rparr>"

text \<open>A frame whose one tensor has a name of 20 characters; a frame whose one tensor
  has no data vector; and freed memory that begins with a NUL.\<close>

definition long_name :: string where
  "long_name = ''tensor_name_of_20_ch''"

definition long_name_frame :: Tensors where
  "long_name_frame = sample_container [sample_tensor long_name NNS_UINT8 48 4]"

definition no_data_frame :: Tensors where
  "no_data_frame =
     sample_container [(sample_tensor ''a'' NNS_UINT8 48 4)\<lparr>Tensor_data := None\<rparr>]"

definition freed_nul :: "nat \<Rightarrow> string" where
  "freed_nul i = []"

definition sample_caps :: GstCaps where
  "sample_caps = [[(''framerate'', G_FRACTION 30 1)]]"

section \<open>Facts about the sample frames\<close>

lemma sample_buf_peek: "gst_buffer_peek_memory sample_buf 0 = Some sample_mem"
  by (simp add: gst_buffer_peek_memory_def sample_buf_def)

lemma sample_mem_map: "gst_memory_map sample_mem = Some (replicate 64 0)"
  by (simp add: sample_mem_def)

lemma seventeen_declared: "num_tensor seventeen_tensors = 17"
  by (simp add: seventeen_tensors_def sample_container_def)

lemma seventeen_over_limit: "int NNS_TENSOR_SIZE_LIMIT < num_tensor seventeen_tensors"
  by (simp add: seventeen_declared NNS_TENSOR_SIZE_LIMIT_def)

section \<open>A declared count over the limit\<close>

text \<open>When the mapped container declares more tensors than the limit, the call returns
  through the label \<^verbatim>\<open>done\<close> with the buffer pointer still \<^verbatim>\<open>NULL\<close>; only the
  tensor count of the configuration has been written.\<close>

lemma fbc_convert_over_limit:
  assumes "gst_buffer_peek_memory in_buf 0 = Some in_mem"
    and "gst_memory_map in_mem = Some bytes"
    and "GetTensors bytes = Some t"
    and "int NNS_TENSOR_SIZE_LIMIT < num_tensor t"
  shows "fbc_convert GetTensors g in_buf fs fi cfg =
     Inr \<lparr>ret = None, frame_size_out = fs, frames_in_out = fi,
          config_out = cfg\<lparr>num_tensors := word_of_int (num_tensor t)\<rparr>, in_mapped = False\<rparr>"
  using assms by (simp add: fbc_convert_def fbc_convert_done_def)

section \<open>The two loops\<close>

text \<open>The inner loop copies the first \<^verbatim>\<open>NNS_TENSOR_RANK_LIMIT\<close> dimensions and keeps
  what lies behind them; it returns exactly when both arrays are long enough.\<close>

lemma copy_dimension_closed:
  "j \<le> NNS_TENSOR_RANK_LIMIT \<Longrightarrow> NNS_TENSOR_RANK_LIMIT \<le> length src
     \<Longrightarrow> NNS_TENSOR_RANK_LIMIT \<le> length dst
     \<Longrightarrow> copy_dimension src j dst =
           Inr (take j dst @ take (NNS_TENSOR_RANK_LIMIT - j) (drop j src)
                  @ drop NNS_TENSOR_RANK_LIMIT dst)"
proof (induction src j dst rule: copy_dimension.induct)
  case (1 src j dst)
  show ?case
  proof (cases "j < NNS_TENSOR_RANK_LIMIT")
    case True
    with "1.prems" have js: "j < length src" and jd: "j < length dst" by simp_all
    have get: "Vector_Get src j = Inr (src ! j)"
      using js by (simp add: Vector_Get_def)
    have step: "copy_dimension src j dst = copy_dimension src (Suc j) (dst[j := src ! j])"
      using True get jd by (simp add: copy_dimension.simps [of src j dst])
    have ih: "copy_dimension src (Suc j) (dst[j := src ! j]) =
        Inr (take (Suc j) (dst[j := src ! j])
               @ take (NNS_TENSOR_RANK_LIMIT - Suc j) (drop (Suc j) src)
               @ drop NNS_TENSOR_RANK_LIMIT (dst[j := src ! j]))"
      using "1.IH" [OF True get jd] True "1.prems" by simp
    have a: "take (Suc j) (dst[j := src ! j]) = take j dst @ [src ! j]"
      using jd by (simp add: take_Suc_conv_app_nth)
    have b: "take (NNS_TENSOR_RANK_LIMIT - j) (drop j src) =
        src ! j # take (NNS_TENSOR_RANK_LIMIT - Suc j) (drop (Suc j) src)"
    proof -
      have "drop j src = src ! j # drop (Suc j) src"
        using js by (simp add: Cons_nth_drop_Suc)
      moreover have "NNS_TENSOR_RANK_LIMIT - j = Suc (NNS_TENSOR_RANK_LIMIT - Suc j)"
        using True by simp
      ultimately show ?thesis by simp
    qed
    have c: "drop NNS_TENSOR_RANK_LIMIT (dst[j := src ! j]) = drop NNS_TENSOR_RANK_LIMIT dst"
      using True by simp
    show ?thesis
      by (simp only: step ih a b c append_assoc append_Cons append_Nil)
  next
    case False
    then have stop: "copy_dimension src j dst = Inr dst"
      by (simp add: copy_dimension.simps [of src j dst])
    from False "1.prems" have "j = NNS_TENSOR_RANK_LIMIT" by simp
    then have "take j dst @ take (NNS_TENSOR_RANK_LIMIT - j) (drop j src)
        @ drop NNS_TENSOR_RANK_LIMIT dst = dst"
      by simp
    then show ?thesis
      by (simp only: stop)
  qed
qed

lemma copy_dimension_Inr_lengths:
  "copy_dimension src j dst = Inr d \<Longrightarrow> j < NNS_TENSOR_RANK_LIMIT
     \<Longrightarrow> NNS_TENSOR_RANK_LIMIT \<le> length src \<and> NNS_TENSOR_RANK_LIMIT \<le> length dst"
proof (induction src j dst rule: copy_dimension.induct)
  case (1 src j dst)
  from "1.prems" have js: "j < length src" and jd: "j < length dst"
    by (auto simp: copy_dimension.simps [of src j dst] Vector_Get_def split: if_splits)
  then have get: "Vector_Get src j = Inr (src ! j)"
    by (simp add: Vector_Get_def)
  have step: "copy_dimension src (Suc j) (dst[j := src ! j]) = Inr d"
    using "1.prems" get jd by (simp add: copy_dimension.simps [of src j dst])
  show ?case
  proof (cases "Suc j < NNS_TENSOR_RANK_LIMIT")
    case True
    from "1.IH" [OF "1.prems"(2) get jd step True] show ?thesis by simp
  next
    case False
    with "1.prems"(2) js jd show ?thesis by simp
  qed
qed

lemma copy_dimension_Inr_iff:
  "copy_dimension src 0 dst = Inr d \<longleftrightarrow>
     NNS_TENSOR_RANK_LIMIT \<le> length src \<and> NNS_TENSOR_RANK_LIMIT \<le> length dst
     \<and> d = take NNS_TENSOR_RANK_LIMIT src @ drop NNS_TENSOR_RANK_LIMIT dst"
proof
  assume ok: "copy_dimension src 0 dst = Inr d"
  then have len: "NNS_TENSOR_RANK_LIMIT \<le> length src \<and> NNS_TENSOR_RANK_LIMIT \<le> length dst"
    by (rule copy_dimension_Inr_lengths) (simp add: NNS_TENSOR_RANK_LIMIT_def)
  with copy_dimension_closed [of 0 src dst] ok
  show "NNS_TENSOR_RANK_LIMIT \<le> length src \<and> NNS_TENSOR_RANK_LIMIT \<le> length dst
     \<and> d = take NNS_TENSOR_RANK_LIMIT src @ drop NNS_TENSOR_RANK_LIMIT dst"
    by simp
next
  assume "NNS_TENSOR_RANK_LIMIT \<le> length src \<and> NNS_TENSOR_RANK_LIMIT \<le> length dst
     \<and> d = take NNS_TENSOR_RANK_LIMIT src @ drop NNS_TENSOR_RANK_LIMIT dst"
  then show "copy_dimension src 0 dst = Inr d"
    using copy_dimension_closed [of 0 src dst] by simp
qed

text \<open>One pass of the body: when it returns, and what it leaves.\<close>

lemma tensor_info_overwrite:
  "(r :: GstTensorInfo)\<lparr>name := a, type := b, dimension := c\<rparr> =
     \<lparr>name = a, type = b, dimension = c\<rparr>"
  by (cases r) simp

lemma convert_tensor_Some:
  assumes "tv = Some ts" "i < length ts" "Tensor_name (ts ! i) = Some s"
    "i < length (info (st_config st))" "Tensor_dimension (ts ! i) = Some ds"
  shows "convert_tensor g m tv i st =
     (case copy_dimension ds 0 (dimension (info (st_config st) ! i)) of
        Inl e \<Rightarrow> Inl e
      | Inr dim \<Rightarrow>
         Inr \<lparr>st_config = (st_config st)\<lparr>info := (info (st_config st))
                      [i := \<lparr>name = stored_name (g i) s,
                             type = Tensor_type (ts ! i), dimension = dim\<rparr>]\<rparr>,
                 st_out_buf = (st_out_buf st)
                   \<lparr>memory := memory (st_out_buf st) @ [payload_view m (ts ! i)]\<rparr>,
                 st_frame_size = st_frame_size st + ucast (payload_length (ts ! i))\<rparr>)"
  using assms
  by (simp add: convert_tensor_def Let_def Vector_Get_def payload_view_def
      payload_length_def gst_buffer_append_memory_def tensor_info_overwrite
      split: sum.split)

lemma convert_tensor_Inr_D:
  assumes "convert_tensor g m tv i st = Inr st'"
  shows "\<exists>ts s ds. tv = Some ts \<and> i < length ts \<and> Tensor_name (ts ! i) = Some s
        \<and> i < length (info (st_config st))
        \<and> Tensor_dimension (ts ! i) = Some ds"
proof -
  from assms obtain ts where tv: "tv = Some ts"
    by (cases tv) (simp_all add: convert_tensor_def)
  have il: "i < length ts"
    using assms tv by (cases "i < length ts") (simp_all add: convert_tensor_def Vector_Get_def)
  from assms tv il obtain s where s: "Tensor_name (ts ! i) = Some s"
    by (cases "Tensor_name (ts ! i)") (simp_all add: convert_tensor_def Vector_Get_def)
  have ii: "i < length (info (st_config st))"
    using assms tv il s
    by (cases "i < length (info (st_config st))")
      (simp_all add: convert_tensor_def Vector_Get_def)
  from assms tv il s ii obtain ds where ds: "Tensor_dimension (ts ! i) = Some ds"
    by (cases "Tensor_dimension (ts ! i)")
      (simp_all add: convert_tensor_def Vector_Get_def Let_def)
  from tv il s ii ds show ?thesis by simp
qed

text \<open>The outer loop: its two unfoldings, and induction over a run that returns.\<close>

lemma convert_loop_exit:
  "\<not> i < unat (num_tensors (st_config st)) \<Longrightarrow> convert_loop g m tv i st = Inr st"
  by (simp add: convert_loop.simps [of g m tv i st])

lemma convert_loop_step:
  "i < unat (num_tensors (st_config st)) \<Longrightarrow>
     convert_loop g m tv i st =
       (case convert_tensor g m tv i st of
          Inl e \<Rightarrow> Inl e
        | Inr st1 \<Rightarrow> convert_loop g m tv (Suc i) st1)"
  by (simp add: convert_loop.simps [of g m tv i st])

lemma convert_loop_Inr_induct [consumes 1, case_names exit step]:
  assumes run: "convert_loop g m tv i st = Inr st'"
    and exit: "\<And>i st. \<not> i < unat (num_tensors (st_config st)) \<Longrightarrow> P i st st"
    and step: "\<And>i st st1 st'. i < unat (num_tensors (st_config st))
        \<Longrightarrow> convert_tensor g m tv i st = Inr st1
        \<Longrightarrow> convert_loop g m tv (Suc i) st1 = Inr st'
        \<Longrightarrow> P (Suc i) st1 st' \<Longrightarrow> P i st st'"
  shows "P i st st'"
  using run exit step
proof (induction g m tv i st rule: convert_loop.induct)
  case (1 g m tv i st)
  show ?case
  proof (cases "i < unat (num_tensors (st_config st))")
    case True
    with "1.prems"(1) obtain st1 where one: "convert_tensor g m tv i st = Inr st1"
      and rest: "convert_loop g m tv (Suc i) st1 = Inr st'"
      by (auto simp: convert_loop_step split: sum.splits)
    have "P (Suc i) st1 st'"
      using "1.IH" [OF True one rest] "1.prems"(2,3) by blast
    with True one rest show ?thesis
      by (rule "1.prems"(3))
  next
    case False
    with "1.prems"(1) have "st' = st"
      by (simp add: convert_loop_exit)
    with False "1.prems"(2) show ?thesis by simp
  qed
qed

lemma convert_tensor_InrE:
  assumes "convert_tensor g m tv i st = Inr st'"
  obtains ts s ds where "tv = Some ts" "i < length ts" "Tensor_name (ts ! i) = Some s"
    "i < length (info (st_config st))" "Tensor_dimension (ts ! i) = Some ds"
    "NNS_TENSOR_RANK_LIMIT \<le> length ds"
    "NNS_TENSOR_RANK_LIMIT \<le> length (dimension (info (st_config st) ! i))"
    "st' = \<lparr>st_config = (st_config st)\<lparr>info := (info (st_config st))
                      [i := \<lparr>name = stored_name (g i) s,
                             type = Tensor_type (ts ! i),
                             dimension = take NNS_TENSOR_RANK_LIMIT ds
                               @ drop NNS_TENSOR_RANK_LIMIT
                                   (dimension (info (st_config st) ! i))\<rparr>]\<rparr>,
                 st_out_buf = (st_out_buf st)
                   \<lparr>memory := memory (st_out_buf st) @ [payload_view m (ts ! i)]\<rparr>,
                 st_frame_size = st_frame_size st + ucast (payload_length (ts ! i))\<rparr>"
proof -
  from convert_tensor_Inr_D [OF assms] obtain ts s ds where
    f: "tv = Some ts" "i < length ts" "Tensor_name (ts ! i) = Some s"
      "i < length (info (st_config st))" "Tensor_dimension (ts ! i) = Some ds"
    by blast
  from assms obtain dim where
    cd: "copy_dimension ds 0 (dimension (info (st_config st) ! i)) = Inr dim"
    by (auto simp: convert_tensor_Some [OF f] split: sum.splits)
  from assms cd have st': "st' = \<lparr>st_config = (st_config st)\<lparr>info := (info (st_config st))
                      [i := \<lparr>name = stored_name (g i) s,
                             type = Tensor_type (ts ! i), dimension = dim\<rparr>]\<rparr>,
                 st_out_buf = (st_out_buf st)
                   \<lparr>memory := memory (st_out_buf st) @ [payload_view m (ts ! i)]\<rparr>,
                 st_frame_size = st_frame_size st + ucast (payload_length (ts ! i))\<rparr>"
    by (simp add: convert_tensor_Some [OF f])
  from cd have "NNS_TENSOR_RANK_LIMIT \<le> length ds"
    "NNS_TENSOR_RANK_LIMIT \<le> length (dimension (info (st_config st) ! i))"
    "dim = take NNS_TENSOR_RANK_LIMIT ds
       @ drop NNS_TENSOR_RANK_LIMIT (dimension (info (st_config st) ! i))"
    by (simp_all add: copy_dimension_Inr_iff)
  with f st' that show thesis by blast
qed

lemma convert_loop_preserves:
  assumes "convert_loop g m tv i st = Inr st'"
  shows "num_tensors (st_config st') = num_tensors (st_config st)
     \<and> rate_n (st_config st') = rate_n (st_config st)
     \<and> rate_d (st_config st') = rate_d (st_config st)
     \<and> length (info (st_config st')) = length (info (st_config st))
     \<and> pts (st_out_buf st') = pts (st_out_buf st)
     \<and> dts (st_out_buf st') = dts (st_out_buf st)
     \<and> duration (st_out_buf st') = duration (st_out_buf st)
     \<and> buf_offset (st_out_buf st') = buf_offset (st_out_buf st)
     \<and> buf_offset_end (st_out_buf st') = buf_offset_end (st_out_buf st)"
  using assms
proof (induction rule: convert_loop_Inr_induct)
  case (exit i st)
  show ?case by simp
next
  case (step i st st1 st')
  from step(2) have "num_tensors (st_config st1) = num_tensors (st_config st)
     \<and> rate_n (st_config st1) = rate_n (st_config st)
     \<and> rate_d (st_config st1) = rate_d (st_config st)
     \<and> length (info (st_config st1)) = length (info (st_config st))
     \<and> pts (st_out_buf st1) = pts (st_out_buf st)
     \<and> dts (st_out_buf st1) = dts (st_out_buf st)
     \<and> duration (st_out_buf st1) = duration (st_out_buf st)
     \<and> buf_offset (st_out_buf st1) = buf_offset (st_out_buf st)
     \<and> buf_offset_end (st_out_buf st1) = buf_offset_end (st_out_buf st)"
    by (elim convert_tensor_InrE) simp
  with step(4) show ?case by simp
qed

lemma convert_loop_views:
  assumes "convert_loop g m tv i st = Inr st'"
  shows "(i < unat (num_tensors (st_config st))
            \<longrightarrow> unat (num_tensors (st_config st)) \<le> length (vector_items tv))
     \<and> memory (st_out_buf st') = memory (st_out_buf st)
           @ map (payload_view m)
               (drop i (take (unat (num_tensors (st_config st))) (vector_items tv)))
     \<and> st_frame_size st' = st_frame_size st
           + sum_list (map (\<lambda>x. ucast (payload_length x))
               (drop i (take (unat (num_tensors (st_config st))) (vector_items tv))))"
  using assms
proof (induction rule: convert_loop_Inr_induct)
  case (exit i st)
  then show ?case by simp
next
  case (step i st st1 st')
  let ?n = "unat (num_tensors (st_config st))"
  from step(2) obtain ts where tv: "tv = Some ts" and il: "i < length ts"
    and n1: "num_tensors (st_config st1) = num_tensors (st_config st)"
    and m1: "memory (st_out_buf st1) = memory (st_out_buf st) @ [payload_view m (ts ! i)]"
    and f1: "st_frame_size st1 = st_frame_size st + ucast (payload_length (ts ! i))"
    by (elim convert_tensor_InrE) simp
  have items: "vector_items tv = ts"
    using tv by (simp add: vector_items_def)
  have len: "?n \<le> length ts"
  proof (cases "Suc i < ?n")
    case True
    with step(4) n1 items show ?thesis by simp
  next
    case False
    with step(1) il show ?thesis by simp
  qed
  have split: "drop i (take ?n ts) = ts ! i # drop (Suc i) (take ?n ts)"
    using step(1) len by (simp add: Cons_nth_drop_Suc [symmetric])
  from step(4) n1 items m1 f1 len split show ?case
    by (simp add: add.assoc)
qed

text \<open>On readable records and a configuration of the right sizes the loop
  returns, and leaves the descriptors of the records in the configuration.\<close>

lemma valid_config_nth:
  "valid_config c \<Longrightarrow> k < NNS_TENSOR_SIZE_LIMIT
     \<Longrightarrow> k < length (info c) \<and> length (dimension (info c ! k)) = NNS_TENSOR_RANK_LIMIT"
  by (simp add: valid_config_def list_all_length)

lemma valid_config_update:
  "valid_config c \<Longrightarrow> length (dimension e) = NNS_TENSOR_RANK_LIMIT
     \<Longrightarrow> valid_config (c\<lparr>info := (info c)[k := e]\<rparr>)"
proof -
  assume vc: "valid_config c" and e: "length (dimension e) = NNS_TENSOR_RANK_LIMIT"
  have "length (dimension ((info c)[k := e] ! n)) = NNS_TENSOR_RANK_LIMIT"
    if "n < length (info c)" for n
    using that vc e by (cases "k = n") (simp_all add: valid_config_def list_all_length)
  with vc show ?thesis
    by (simp add: valid_config_def list_all_length)
qed

lemma convert_tensor_well_formed:
  assumes il: "i < length ts" and wf: "readable_tensor (ts ! i)"
    and vc: "valid_config (st_config st)" and lim: "i < NNS_TENSOR_SIZE_LIMIT"
  shows "\<exists>ds. Tensor_dimension (ts ! i) = Some ds \<and> length ds = NNS_TENSOR_RANK_LIMIT
     \<and> convert_tensor g m (Some ts) i st =
       Inr \<lparr>st_config = (st_config st)\<lparr>info := (info (st_config st))
                [i := \<lparr>name = Option.bind (Tensor_name (ts ! i)) (stored_name (g i)),
                       type = Tensor_type (ts ! i), dimension = ds\<rparr>]\<rparr>,
            st_out_buf = (st_out_buf st)
              \<lparr>memory := memory (st_out_buf st) @ [payload_view m (ts ! i)]\<rparr>,
            st_frame_size = st_frame_size st + ucast (payload_length (ts ! i))\<rparr>"
proof -
  from wf obtain s ds where s: "Tensor_name (ts ! i) = Some s"
    and ds: "Tensor_dimension (ts ! i) = Some ds" and dl: "length ds = NNS_TENSOR_RANK_LIMIT"
    by (auto simp: readable_tensor_def split: option.splits)
  from valid_config_nth [OF vc lim] have ii: "i < length (info (st_config st))"
    and il': "length (dimension (info (st_config st) ! i)) = NNS_TENSOR_RANK_LIMIT"
    by simp_all
  have cd: "copy_dimension ds 0 (dimension (info (st_config st) ! i)) = Inr ds"
    using copy_dimension_closed [of 0 ds "dimension (info (st_config st) ! i)"] dl il'
    by simp
  show ?thesis
    using ds dl s by (simp add: convert_tensor_Some [OF refl il s ii ds] cd)
qed

lemma convert_loop_well_formed:
  assumes wf: "list_all readable_tensor ts"
    and vc: "valid_config (st_config st)"
    and n: "unat (num_tensors (st_config st)) \<le> length ts"
    and lim: "unat (num_tensors (st_config st)) \<le> NNS_TENSOR_SIZE_LIMIT"
  shows "\<exists>st'. convert_loop g m (Some ts) i st = Inr st'
     \<and> valid_config (st_config st')
     \<and> (\<forall>k. k < i \<longrightarrow> info (st_config st') ! k = info (st_config st) ! k)
     \<and> (\<forall>k. i \<le> k \<and> k < unat (num_tensors (st_config st)) \<longrightarrow>
            name (info (st_config st') ! k) =
              Option.bind (Tensor_name (ts ! k)) (stored_name (g k))
          \<and> type (info (st_config st') ! k) = Tensor_type (ts ! k)
          \<and> Tensor_dimension (ts ! k) = Some (dimension (info (st_config st') ! k)))"
  using vc n lim
proof (induction "unat (num_tensors (st_config st)) - i" arbitrary: i st)
  case 0
  then have "convert_loop g m (Some ts) i st = Inr st"
    by (simp add: convert_loop_exit)
  with 0 show ?case by auto
next
  case (Suc d)
  let ?n = "unat (num_tensors (st_config st))"
  from Suc(2) have lt: "i < ?n" by simp
  with Suc.prems have il: "i < length ts" and ilim: "i < NNS_TENSOR_SIZE_LIMIT"
    by simp_all
  from wf il have wfi: "readable_tensor (ts ! i)"
    by (simp add: list_all_length)
  from convert_tensor_well_formed [OF il wfi Suc.prems(1) ilim, of g m]
  obtain ds st1 where ds: "Tensor_dimension (ts ! i) = Some ds"
    and dl: "length ds = NNS_TENSOR_RANK_LIMIT"
    and one: "convert_tensor g m (Some ts) i st = Inr st1"
    and st1: "st1 = \<lparr>st_config = (st_config st)\<lparr>info := (info (st_config st))
                [i := \<lparr>name = Option.bind (Tensor_name (ts ! i)) (stored_name (g i)),
                       type = Tensor_type (ts ! i), dimension = ds\<rparr>]\<rparr>,
            st_out_buf = (st_out_buf st)
              \<lparr>memory := memory (st_out_buf st) @ [payload_view m (ts ! i)]\<rparr>,
            st_frame_size = st_frame_size st + ucast (payload_length (ts ! i))\<rparr>"
    by blast
  have n1: "num_tensors (st_config st1) = num_tensors (st_config st)"
    by (simp add: st1)
  have vc1: "valid_config (st_config st1)"
    using valid_config_update [OF Suc.prems(1), of _ i] dl by (simp add: st1)
  have d1: "d = unat (num_tensors (st_config st1)) - Suc i"
    using Suc(2) n1 by simp
  from Suc(1) [OF d1 vc1] Suc.prems(2,3) n1
  obtain st' where rest: "convert_loop g m (Some ts) (Suc i) st1 = Inr st'"
    and vc': "valid_config (st_config st')"
    and low: "\<forall>k. k < Suc i \<longrightarrow> info (st_config st') ! k = info (st_config st1) ! k"
    and high: "\<forall>k. Suc i \<le> k \<and> k < ?n \<longrightarrow>
            name (info (st_config st') ! k) =
              Option.bind (Tensor_name (ts ! k)) (stored_name (g k))
          \<and> type (info (st_config st') ! k) = Tensor_type (ts ! k)
          \<and> Tensor_dimension (ts ! k) = Some (dimension (info (st_config st') ! k))"
    by auto
  have run: "convert_loop g m (Some ts) i st = Inr st'"
    using lt one rest by (simp add: convert_loop_step)
  from valid_config_nth [OF Suc.prems(1) ilim] have ii: "i < length (info (st_config st))"
    by simp
  have at_i: "info (st_config st') ! i =
      \<lparr>name = Option.bind (Tensor_name (ts ! i)) (stored_name (g i)),
       type = Tensor_type (ts ! i), dimension = ds\<rparr>"
    using low ii by (simp add: st1)
  have below: "\<forall>k. k < i \<longrightarrow> info (st_config st') ! k = info (st_config st) ! k"
    using low by (simp add: st1)
  have range: "\<forall>k. i \<le> k \<and> k < ?n \<longrightarrow>
            name (info (st_config st') ! k) =
              Option.bind (Tensor_name (ts ! k)) (stored_name (g k))
          \<and> type (info (st_config st') ! k) = Tensor_type (ts ! k)
          \<and> Tensor_dimension (ts ! k) = Some (dimension (info (st_config st') ! k))"
  proof (intro allI impI)
    fix k assume k: "i \<le> k \<and> k < ?n"
    show "name (info (st_config st') ! k) =
              Option.bind (Tensor_name (ts ! k)) (stored_name (g k))
          \<and> type (info (st_config st') ! k) = Tensor_type (ts ! k)
          \<and> Tensor_dimension (ts ! k) = Some (dimension (info (st_config st') ! k))"
    proof (cases "k = i")
      case True
      then show ?thesis using at_i ds by simp
    next
      case False
      with k have "Suc i \<le> k \<and> k < ?n" by simp
      with high show ?thesis by blast
    qed
  qed
  from run vc' below range show ?case by blast
qed

section \<open>fbc_convert as a whole\<close>

lemma fbc_convert_mapped:
  assumes "gst_buffer_peek_memory in_buf 0 = Some in_mem"
    and "gst_memory_map in_mem = Some bytes"
    and "GetTensors bytes = Some t"
    and "num_tensor t \<le> int NNS_TENSOR_SIZE_LIMIT"
    and "fr t = Some f"
  shows "fbc_convert GetTensors g in_buf fs fi cfg =
     (case convert_loop g in_mem (tensor t) 0
             \<lparr>st_config = cfg\<lparr>num_tensors := word_of_int (num_tensor t),
                               rate_n := fr_rate_n f, rate_d := fr_rate_d f\<rparr>,
              st_out_buf = gst_buffer_new, st_frame_size = 0\<rparr> of
        Inl e \<Rightarrow> Inl e
      | Inr st \<Rightarrow>
          Inr \<lparr>ret = Some (gst_buffer_copy_into (st_out_buf st) in_buf),
               frame_size_out = st_frame_size st, frames_in_out = 1,
               config_out = st_config st, in_mapped = False\<rparr>)"
  using assms by (simp add: fbc_convert_def fbc_convert_done_def split: sum.split)

lemma fbc_convert_buffer_E:
  assumes run: "fbc_convert GetTensors g in_buf fs fi cfg = Inr r" and ob: "ret r = Some ob"
    and peek: "gst_buffer_peek_memory in_buf 0 = Some in_mem"
    and map: "gst_memory_map in_mem = Some bytes"
    and rd: "GetTensors bytes = Some t"
  obtains f st where "fr t = Some f" "num_tensor t \<le> int NNS_TENSOR_SIZE_LIMIT"
    "convert_loop g in_mem (tensor t) 0
        \<lparr>st_config = cfg\<lparr>num_tensors := word_of_int (num_tensor t),
                          rate_n := fr_rate_n f, rate_d := fr_rate_d f\<rparr>,
         st_out_buf = gst_buffer_new, st_frame_size = 0\<rparr> = Inr st"
    "ob = gst_buffer_copy_into (st_out_buf st) in_buf"
    "frame_size_out r = st_frame_size st" "frames_in_out r = 1"
    "config_out r = st_config st" "\<not> in_mapped r"
proof -
  have lim: "num_tensor t \<le> int NNS_TENSOR_SIZE_LIMIT"
  proof (rule ccontr)
    assume "\<not> num_tensor t \<le> int NNS_TENSOR_SIZE_LIMIT"
    then have "int NNS_TENSOR_SIZE_LIMIT < num_tensor t" by simp
    from fbc_convert_over_limit [where GetTensors = GetTensors and g = g, OF peek map rd this, of fs fi cfg]
      run ob show False by auto
  qed
  from run peek map rd lim obtain f where f: "fr t = Some f"
    by (cases "fr t") (simp_all add: fbc_convert_def)
  let ?start = "\<lparr>st_config = cfg\<lparr>num_tensors := word_of_int (num_tensor t),
                          rate_n := fr_rate_n f, rate_d := fr_rate_d f\<rparr>,
         st_out_buf = gst_buffer_new, st_frame_size = 0\<rparr>"
  note unfolded = fbc_convert_mapped [where GetTensors = GetTensors and g = g, OF peek map rd lim f,
      of fs fi cfg]
  from run unfolded obtain st where loop: "convert_loop g in_mem (tensor t) 0 ?start = Inr st"
    by (cases "convert_loop g in_mem (tensor t) 0 ?start") simp_all
  from run unfolded loop
  have r: "r = \<lparr>ret = Some (gst_buffer_copy_into (st_out_buf st) in_buf),
               frame_size_out = st_frame_size st, frames_in_out = 1,
               config_out = st_config st, in_mapped = False\<rparr>"
    by simp
  show thesis
  proof (rule that [OF f lim loop])
    show "ob = gst_buffer_copy_into (st_out_buf st) in_buf"
      using r ob by simp
  qed (simp_all add: r)
qed

text \<open>Sums of 32-bit lengths in the 64-bit accumulator: fewer than \<open>2 ^ 32\<close> summands
  cannot wrap it.\<close>

lemma ucast_sum_of_nat:
  fixes f :: "'a \<Rightarrow> 32 word"
  shows "sum_list (map (\<lambda>x. ucast (f x) :: 64 word) xs)
      = of_nat (sum_list (map (\<lambda>x. unat (f x)) xs))"
proof (induction xs)
  case Nil
  show ?case by simp
next
  case (Cons x xs)
  have "(ucast (f x) :: 64 word) = of_nat (unat (f x))"
    by simp
  with Cons show ?case by simp
qed

lemma unat_sum_bound:
  fixes f :: "'a \<Rightarrow> 32 word"
  shows "sum_list (map (\<lambda>x. unat (f x)) xs) \<le> length xs * (2 ^ 32 - 1)"
proof (induction xs)
  case Nil
  show ?case by simp
next
  case (Cons x xs)
  have "unat (f x) < 2 ^ 32"
    using unsigned_less [of "f x", where 'a = nat] by simp
  with Cons show ?case by simp
qed

lemma unat_ucast_sum:
  fixes f :: "'a \<Rightarrow> 32 word"
  assumes "length xs < 2 ^ 32"
  shows "unat (sum_list (map (\<lambda>x. ucast (f x) :: 64 word) xs))
     = sum_list (map (\<lambda>x. unat (f x)) xs)"
proof -
  let ?k = "sum_list (map (\<lambda>x. unat (f x)) xs)"
  have "?k \<le> length xs * (2 ^ 32 - 1)"
    by (rule unat_sum_bound)
  also have "\<dots> \<le> 2 ^ 32 * (2 ^ 32 - 1)"
    using assms by (intro mult_right_mono) simp_all
  also have "\<dots> < (2 :: nat) ^ 64"
    by simp
  finally have "?k < 2 ^ LENGTH(64)"
    by simp
  then have "unat (of_nat ?k :: 64 word) = ?k"
    by (rule of_nat_inverse [OF refl])
  then show ?thesis
    by (simp only: ucast_sum_of_nat)
qed

text \<open>The blocks of the output and the reported size, for a decode that returns a
  buffer.\<close>

lemma unat_ucast_32_64: "unat (ucast (w :: 32 word) :: 64 word) = unat w"
proof -
  have "unat w < 2 ^ 32"
    using unsigned_less [of w, where 'a = nat] by simp
  then have "unat w < 2 ^ 64"
    by simp
  then show ?thesis
    by (simp add: unsigned_ucast_eq take_bit_nat_eq_self)
qed

lemma view_size_payload_view: "view_size (payload_view m x) = unat (payload_length x)"
  by (simp add: payload_view_def gst_memory_share_def unat_ucast_32_64)

lemma payload_view_present:
  "Tensor_data x = Some v \<Longrightarrow>
     payload_view m x = Share m (vec_offset v) (ucast (vec_length v))"
  by (simp add: payload_view_def payload_length_def VectorLength_def Vector_data_offset_def
      gst_memory_share_def)

lemma payload_view_absent:
  "Tensor_data x = None \<Longrightarrow>
     payload_view m x = Share m (NULL_VECTOR_DATA - mapped_address m) 0"
  by (simp add: payload_view_def payload_length_def VectorLength_def Vector_data_offset_def
      gst_memory_share_def)

lemma view_in_bounds_payload_view:
  "Tensor_data x \<noteq> None \<Longrightarrow>
     view_in_bounds n (payload_view m x) = payload_in_bounds n x"
  by (auto simp: payload_view_present payload_in_bounds_def unat_ucast_32_64)

lemma declared_count:
  assumes "num_tensor t = int k" and "num_tensor t \<le> int NNS_TENSOR_SIZE_LIMIT"
  shows "unat (word_of_int (num_tensor t) :: 32 word) = k"
proof -
  from assms have "k \<le> 16"
    by (simp add: NNS_TENSOR_SIZE_LIMIT_def)
  then have "k < 2 ^ LENGTH(32)" by simp
  then have "unat (of_nat k :: 32 word) = k"
    by (rule of_nat_inverse [OF refl])
  with assms(1) show ?thesis by simp
qed

lemma fbc_convert_views:
  assumes run: "fbc_convert GetTensors g in_buf fs fi cfg = Inr r" and ob: "ret r = Some ob"
    and peek: "gst_buffer_peek_memory in_buf 0 = Some in_mem"
    and map: "gst_memory_map in_mem = Some bytes"
    and rd: "GetTensors bytes = Some t"
    and cnt: "num_tensor t = int (length (records t))"
  shows "memory ob = map (payload_view in_mem) (records t)
     \<and> frame_size_out r = sum_list (map (\<lambda>x. ucast (payload_length x)) (records t))
     \<and> length (records t) \<le> NNS_TENSOR_SIZE_LIMIT"
  using run ob peek map rd
proof (rule fbc_convert_buffer_E)
  fix f st
  assume lim: "num_tensor t \<le> int NNS_TENSOR_SIZE_LIMIT"
    and loop: "convert_loop g in_mem (tensor t) 0
        \<lparr>st_config = cfg\<lparr>num_tensors := word_of_int (num_tensor t),
                          rate_n := fr_rate_n f, rate_d := fr_rate_d f\<rparr>,
         st_out_buf = gst_buffer_new, st_frame_size = 0\<rparr> = Inr st"
    and ob': "ob = gst_buffer_copy_into (st_out_buf st) in_buf"
    and fs': "frame_size_out r = st_frame_size st"
  have n: "unat (word_of_int (num_tensor t) :: 32 word) = length (records t)"
    using cnt lim by (rule declared_count)
  have items: "vector_items (tensor t) = records t"
    by (simp add: records_def)
  from convert_loop_views [OF loop] n items
  have "memory (st_out_buf st) = map (payload_view in_mem) (records t)"
    and "st_frame_size st = sum_list (map (\<lambda>x. ucast (payload_length x)) (records t))"
    by (simp_all add: gst_buffer_new_def)
  moreover have "length (records t) \<le> NNS_TENSOR_SIZE_LIMIT"
    using cnt lim by simp
  ultimately show ?thesis
    by (simp add: ob' fs' gst_buffer_copy_into_def)
qed

lemma fbc_convert_readable:
  assumes peek: "gst_buffer_peek_memory in_buf 0 = Some in_mem"
    and map: "gst_memory_map in_mem = Some bytes"
    and rd: "GetTensors bytes = Some t"
    and wf: "readable t"
    and lim: "length (records t) \<le> NNS_TENSOR_SIZE_LIMIT"
    and vc: "valid_config cfg"
  shows "\<exists>r ob f. fbc_convert GetTensors g in_buf fs fi cfg = Inr r \<and> ret r = Some ob
     \<and> fr t = Some f
     \<and> unat (num_tensors (config_out r)) = length (records t)
     \<and> rate_n (config_out r) = fr_rate_n f \<and> rate_d (config_out r) = fr_rate_d f
     \<and> valid_config (config_out r)
     \<and> (\<forall>k. k < length (records t) \<longrightarrow>
            name (info (config_out r) ! k) =
              Option.bind (Tensor_name (records t ! k)) (stored_name (g k))
          \<and> type (info (config_out r) ! k) = Tensor_type (records t ! k)
          \<and> Tensor_dimension (records t ! k) = Some (dimension (info (config_out r) ! k)))"
proof -
  from wf obtain f where f: "fr t = Some f"
    and cnt: "num_tensor t = int (length (records t))"
    and all: "list_all readable_tensor (records t)"
    by (auto simp: readable_def split: option.splits)
  from cnt lim have le: "num_tensor t \<le> int NNS_TENSOR_SIZE_LIMIT" by simp
  have n: "unat (word_of_int (num_tensor t) :: 32 word) = length (records t)"
    using cnt le by (rule declared_count)
  let ?start = "\<lparr>st_config = cfg\<lparr>num_tensors := word_of_int (num_tensor t),
                          rate_n := fr_rate_n f, rate_d := fr_rate_d f\<rparr>,
         st_out_buf = gst_buffer_new, st_frame_size = 0\<rparr>"
  have vc0: "valid_config (st_config ?start)"
    using vc by (simp add: valid_config_def)
  have "\<exists>st. convert_loop g in_mem (tensor t) 0 ?start = Inr st
     \<and> valid_config (st_config st)
     \<and> (\<forall>k. 0 \<le> k \<and> k < length (records t) \<longrightarrow>
            name (info (st_config st) ! k) =
              Option.bind (Tensor_name (records t ! k)) (stored_name (g k))
          \<and> type (info (st_config st) ! k) = Tensor_type (records t ! k)
          \<and> Tensor_dimension (records t ! k) = Some (dimension (info (st_config st) ! k)))"
  proof (cases "tensor t")
    case None
    then have "records t = []"
      by (simp add: records_def vector_items_def)
    with n have "convert_loop g in_mem (tensor t) 0 ?start = Inr ?start"
      by (simp add: convert_loop_exit)
    with vc0 \<open>records t = []\<close> show ?thesis by simp
  next
    case (Some ts)
    then have ts: "records t = ts"
      by (simp add: records_def vector_items_def)
    from convert_loop_well_formed [of ts ?start g in_mem 0] all vc0 n lim ts Some
    show ?thesis unfolding ts by (simp split del: if_split)
  qed
  then obtain st where loop: "convert_loop g in_mem (tensor t) 0 ?start = Inr st"
    and vc': "valid_config (st_config st)"
    and entries: "\<forall>k. 0 \<le> k \<and> k < length (records t) \<longrightarrow>
            name (info (st_config st) ! k) =
              Option.bind (Tensor_name (records t ! k)) (stored_name (g k))
          \<and> type (info (st_config st) ! k) = Tensor_type (records t ! k)
          \<and> Tensor_dimension (records t ! k) = Some (dimension (info (st_config st) ! k))"
    by blast
  from convert_loop_preserves [OF loop]
  have keep: "num_tensors (st_config st) = word_of_int (num_tensor t)"
    "rate_n (st_config st) = fr_rate_n f" "rate_d (st_config st) = fr_rate_d f"
    by simp_all
  have run: "fbc_convert GetTensors g in_buf fs fi cfg =
      Inr \<lparr>ret = Some (gst_buffer_copy_into (st_out_buf st) in_buf),
           frame_size_out = st_frame_size st, frames_in_out = 1,
           config_out = st_config st, in_mapped = False\<rparr>"
    by (simp add: fbc_convert_mapped [where GetTensors = GetTensors and g = g, OF peek map rd le f] loop)
  show ?thesis
    using f n keep vc' entries by (simp add: run)
qed

lemma well_formed_readable: "well_formed t \<Longrightarrow> readable t"
  by (auto simp: well_formed_def readable_def well_formed_tensor_def readable_tensor_def
      list_all_iff split: option.splits)

text \<open>The sample frames are well formed.\<close>

lemma sample_tensor_well_formed: "c_str nm = nm \<Longrightarrow> well_formed_tensor (sample_tensor nm ty off len)"
  by (simp add: well_formed_tensor_def sample_tensor_def NNS_TENSOR_RANK_LIMIT_def)

lemma sample_container_well_formed:
  "list_all well_formed_tensor ts \<Longrightarrow> well_formed (sample_container ts)"
  by (simp add: well_formed_def sample_container_def records_def vector_items_def)

lemma records_sample_container: "records (sample_container ts) = ts"
  by (simp add: records_def sample_container_def vector_items_def)

lemma two_tensors_well_formed: "well_formed two_tensors"
  by (simp add: two_tensors_def sample_container_well_formed sample_tensor_well_formed
      c_str_def)

lemma overlong_payload_well_formed: "well_formed overlong_payload"
  by (simp add: overlong_payload_def sample_container_well_formed sample_tensor_well_formed
      c_str_def)

lemma no_tensors_well_formed: "well_formed no_tensors"
  by (simp add: no_tensors_def sample_container_well_formed)


lemma sample_config_valid: "valid_config sample_config"
  by (simp add: valid_config_def sample_config_def gst_tensors_config_init_def
      gst_tensor_info_init_def list_all_iff)

lemma two_tensors_count: "num_tensor two_tensors = int (length (records two_tensors))"
  by (simp add: two_tensors_def sample_container_def records_def vector_items_def)

lemma two_tensors_decode:
  "\<exists>r ob. fbc_convert (\<lambda>bytes. Some two_tensors) freed_nul sample_buf 0 0 sample_config = Inr r
     \<and> ret r = Some ob"
proof -
  have "length (records two_tensors) \<le> NNS_TENSOR_SIZE_LIMIT"
    by (simp add: two_tensors_def records_sample_container NNS_TENSOR_SIZE_LIMIT_def)
  from fbc_convert_readable [where GetTensors = "\<lambda>bytes. Some two_tensors" and g = freed_nul,
      OF sample_buf_peek sample_mem_map refl well_formed_readable [OF two_tensors_well_formed] this sample_config_valid,
      of 0 0]
  show ?thesis by blast
qed

section \<open>The blocks of the output buffer\<close>

text \<open>
  Claim C6. For every successful decode of a container that holds as many records as it
  declares, the lengths of the blocks of the output buffer add up to the sum of the
  payload lengths of all records, and the \<^verbatim>\<open>frame_size\<close> reported to the caller is
  that same sum: no payload byte is added, dropped or counted twice, and the 64-bit
  accumulator does not wrap.
\<close>

theorem decode_conserves_bytes:
  assumes run: "fbc_convert GetTensors g in_buf fs fi cfg = Inr r" and ob: "ret r = Some ob"
    and peek: "gst_buffer_peek_memory in_buf 0 = Some in_mem"
    and map: "gst_memory_map in_mem = Some bytes"
    and rd: "GetTensors bytes = Some t"
    and cnt: "num_tensor t = int (length (records t))"
  shows "sum_list (map view_size (memory ob))
       = sum_list (map (\<lambda>x. unat (payload_length x)) (records t))
     \<and> unat (frame_size_out r) = sum_list (map (\<lambda>x. unat (payload_length x)) (records t))"
proof -
  from fbc_convert_views [where GetTensors = GetTensors and g = g, OF run ob peek map rd cnt]
  have mem: "memory ob = map (payload_view in_mem) (records t)"
    and fs: "frame_size_out r = sum_list (map (\<lambda>x. ucast (payload_length x)) (records t))"
    and len: "length (records t) \<le> NNS_TENSOR_SIZE_LIMIT"
    by simp_all
  have "map view_size (memory ob) = map (\<lambda>x. unat (payload_length x)) (records t)"
    by (simp add: mem view_size_payload_view)
  moreover have "length (records t) < 2 ^ 32"
    using len by (simp add: NNS_TENSOR_SIZE_LIMIT_def)
  then have "unat (frame_size_out r) = sum_list (map (\<lambda>x. unat (payload_length x)) (records t))"
    unfolding fs by (rule unat_ucast_sum)
  ultimately show ?thesis by simp
qed

theorem decode_conserves_bytes_witness:
  "\<exists>r ob. fbc_convert (\<lambda>bytes. Some two_tensors) freed_nul sample_buf 0 0 sample_config = Inr r
     \<and> ret r = Some ob \<and> sum_list (map view_size (memory ob)) = 8
     \<and> unat (frame_size_out r) = 8"
proof -
  from two_tensors_decode obtain r ob
    where run: "fbc_convert (\<lambda>bytes. Some two_tensors) freed_nul sample_buf 0 0 sample_config = Inr r"
      and ob: "ret r = Some ob"
    by blast
  have "sum_list (map (\<lambda>x. unat (payload_length x)) (records two_tensors)) = 8"
    by (simp add: two_tensors_def records_sample_container sample_tensor_def
        payload_length_def VectorLength_def)
  with decode_conserves_bytes [where GetTensors = "\<lambda>bytes. Some two_tensors" and g = freed_nul,
      OF run ob sample_buf_peek sample_mem_map refl two_tensors_count]
  have "sum_list (map view_size (memory ob)) = 8 \<and> unat (frame_size_out r) = 8"
    by simp
  with run ob show ?thesis by blast
qed

text \<open>
  Claim C1, as the source has it. \<^verbatim>\<open>fbc_convert\<close> checks no payload range against the
  length of the input and has no bounds-error result. For every successful decode the
  blocks of the output are, in order, one share of the input block for each record: at
  the offset and of the length of the record's payload or, for a record without a data
  vector, of length 0 at the difference that line 140 computes from the null vector.
  So when every record has a data vector, all blocks lie within the mapped bytes exactly
  when all payload ranges do.
\<close>

theorem decode_views_follow_payloads:
  assumes run: "fbc_convert GetTensors g in_buf fs fi cfg = Inr r" and ob: "ret r = Some ob"
    and peek: "gst_buffer_peek_memory in_buf 0 = Some in_mem"
    and map: "gst_memory_map in_mem = Some bytes"
    and rd: "GetTensors bytes = Some t"
    and cnt: "num_tensor t = int (length (records t))"
  shows "list_all2
       (\<lambda>view x.
          case Tensor_data x of
            Some v \<Rightarrow> view = Share in_mem (vec_offset v) (ucast (vec_length v))
          | None \<Rightarrow> view = Share in_mem (NULL_VECTOR_DATA - mapped_address in_mem) 0)
       (memory ob) (records t)
     \<and> (list_all (\<lambda>x. Tensor_data x \<noteq> None) (records t) \<longrightarrow>
          list_all (view_in_bounds (length bytes)) (memory ob)
            = list_all (payload_in_bounds (length bytes)) (records t))"
proof -
  from fbc_convert_views [where GetTensors = GetTensors and g = g, OF run ob peek map rd cnt]
  have mem: "memory ob = map (payload_view in_mem) (records t)"
    by simp
  have share: "case Tensor_data x of
            Some v \<Rightarrow> payload_view in_mem x = Share in_mem (vec_offset v) (ucast (vec_length v))
          | None \<Rightarrow> payload_view in_mem x
              = Share in_mem (NULL_VECTOR_DATA - mapped_address in_mem) 0" for x
    by (simp add: payload_view_present payload_view_absent split: option.split)
  have "list_all2
       (\<lambda>view x.
          case Tensor_data x of
            Some v \<Rightarrow> view = Share in_mem (vec_offset v) (ucast (vec_length v))
          | None \<Rightarrow> view = Share in_mem (NULL_VECTOR_DATA - mapped_address in_mem) 0)
       (memory ob) (records t)"
    using share by (simp add: mem list_all2_map1 list_all2_same)
  moreover
  have "list_all (view_in_bounds (length bytes)) (memory ob)
         = list_all (payload_in_bounds (length bytes)) (records t)"
    if "list_all (\<lambda>x. Tensor_data x \<noteq> None) (records t)"
    using that by (auto simp: mem list_all_iff view_in_bounds_payload_view)
  ultimately show ?thesis by blast
qed

lemma no_data_frame_readable: "readable no_data_frame"
  by (simp add: no_data_frame_def readable_def readable_tensor_def sample_container_def
      sample_tensor_def records_def vector_items_def NNS_TENSOR_RANK_LIMIT_def)

lemma no_data_frame_records:
  "records no_data_frame = [(sample_tensor ''a'' NNS_UINT8 48 4)\<lparr>Tensor_data := None\<rparr>]"
  by (simp add: no_data_frame_def records_sample_container)

theorem decode_views_follow_payloads_witness:
  "(\<exists>r ob. fbc_convert (\<lambda>bytes. Some two_tensors) freed_nul sample_buf 0 0 sample_config
        = Inr r
      \<and> ret r = Some ob
      \<and> memory ob = [Share sample_mem 48 4, Share sample_mem 56 4]
      \<and> list_all (view_in_bounds 64) (memory ob))
   \<and> (\<exists>r ob. fbc_convert (\<lambda>bytes. Some no_data_frame) freed_nul sample_buf 0 0 sample_config
        = Inr r
      \<and> ret r = Some ob
      \<and> memory ob = [Share sample_mem (4 - 4096) 0])"
proof -
  from two_tensors_decode obtain r ob
    where run: "fbc_convert (\<lambda>bytes. Some two_tensors) freed_nul sample_buf 0 0 sample_config
        = Inr r"
      and ob: "ret r = Some ob"
    by blast
  have recs: "records two_tensors =
      [sample_tensor ''a'' NNS_UINT8 48 4, sample_tensor [] NNS_FLOAT32 56 4]"
    by (simp add: two_tensors_def records_sample_container)
  have present: "list_all (\<lambda>x. Tensor_data x \<noteq> None) (records two_tensors)"
    by (simp add: recs sample_tensor_def)
  have inside: "list_all (payload_in_bounds 64) (records two_tensors)"
    by (simp add: recs sample_tensor_def payload_in_bounds_def)
  note follow = decode_views_follow_payloads
    [where GetTensors = "\<lambda>bytes. Some two_tensors" and g = freed_nul,
      OF run ob sample_buf_peek sample_mem_map refl two_tensors_count]
  from follow have "list_all2
       (\<lambda>view x.
          case Tensor_data x of
            Some v \<Rightarrow> view = Share sample_mem (vec_offset v) (ucast (vec_length v))
          | None \<Rightarrow> view = Share sample_mem (NULL_VECTOR_DATA - mapped_address sample_mem) 0)
       (memory ob) [sample_tensor ''a'' NNS_UINT8 48 4, sample_tensor [] NNS_FLOAT32 56 4]"
    by (simp add: recs)
  then have views: "memory ob = [Share sample_mem 48 4, Share sample_mem 56 4]"
    by (auto simp: list_all2_Cons2 sample_tensor_def)
  from follow present inside have "list_all (view_in_bounds 64) (memory ob)"
    by simp
  with run ob views have one: "\<exists>r ob.
      fbc_convert (\<lambda>bytes. Some two_tensors) freed_nul sample_buf 0 0 sample_config = Inr r
      \<and> ret r = Some ob
      \<and> memory ob = [Share sample_mem 48 4, Share sample_mem 56 4]
      \<and> list_all (view_in_bounds 64) (memory ob)"
    by blast
  have lim: "length (records no_data_frame) \<le> NNS_TENSOR_SIZE_LIMIT"
    by (simp add: no_data_frame_records NNS_TENSOR_SIZE_LIMIT_def)
  from fbc_convert_readable [where GetTensors = "\<lambda>bytes. Some no_data_frame" and g = freed_nul,
      OF sample_buf_peek sample_mem_map refl no_data_frame_readable lim sample_config_valid,
      of 0 0]
  obtain r' ob'
    where run': "fbc_convert (\<lambda>bytes. Some no_data_frame) freed_nul sample_buf 0 0 sample_config
        = Inr r'"
      and ob': "ret r' = Some ob'"
    by blast
  have cnt': "num_tensor no_data_frame = int (length (records no_data_frame))"
    by (simp add: no_data_frame_def sample_container_def records_def vector_items_def)
  from decode_views_follow_payloads
    [where GetTensors = "\<lambda>bytes. Some no_data_frame" and g = freed_nul,
      OF run' ob' sample_buf_peek sample_mem_map refl cnt']
  have "list_all2
       (\<lambda>view x.
          case Tensor_data x of
            Some v \<Rightarrow> view = Share sample_mem (vec_offset v) (ucast (vec_length v))
          | None \<Rightarrow> view = Share sample_mem (NULL_VECTOR_DATA - mapped_address sample_mem) 0)
       (memory ob') [(sample_tensor ''a'' NNS_UINT8 48 4)\<lparr>Tensor_data := None\<rparr>]"
    by (simp add: no_data_frame_records)
  then have "memory ob' = [Share sample_mem (4 - 4096) 0]"
    by (auto simp: list_all2_Cons2 sample_tensor_def NULL_VECTOR_DATA_def sample_mem_def)
  with run' ob' have two: "\<exists>r ob.
      fbc_convert (\<lambda>bytes. Some no_data_frame) freed_nul sample_buf 0 0 sample_config = Inr r
      \<and> ret r = Some ob
      \<and> memory ob = [Share sample_mem (4 - 4096) 0]"
    by blast
  from one two show ?thesis ..
qed

text \<open>The claim as the spec words it fails on the frame whose payload claims 1000
  bytes from offset 48 of a block of 64: the decode returns a buffer, and its one block
  reaches past the end of the input.\<close>

theorem decode_shares_out_of_bounds_payload:
  "\<not> isl (fbc_convert (\<lambda>bytes. Some overlong_payload) freed_nul sample_buf 0 0 sample_config)
   \<and> map_option memory
       (ret (projr (fbc_convert (\<lambda>bytes. Some overlong_payload) freed_nul sample_buf 0 0
          sample_config)))
     = Some [Share sample_mem 48 1000]
   \<and> gst_memory_map sample_mem = Some (replicate 64 0)
   \<and> \<not> view_in_bounds (length (replicate 64 (0 :: 8 word))) (Share sample_mem 48 1000)"
proof -
  have "length (records overlong_payload) \<le> NNS_TENSOR_SIZE_LIMIT"
    by (simp add: overlong_payload_def records_sample_container NNS_TENSOR_SIZE_LIMIT_def)
  from fbc_convert_readable [where GetTensors = "\<lambda>bytes. Some overlong_payload"
      and g = freed_nul,
      OF sample_buf_peek sample_mem_map refl well_formed_readable [OF overlong_payload_well_formed]
        this sample_config_valid, of 0 0]
  obtain r ob
    where run: "fbc_convert (\<lambda>bytes. Some overlong_payload) freed_nul sample_buf 0 0
        sample_config = Inr r"
      and ob: "ret r = Some ob"
    by blast
  have cnt: "num_tensor overlong_payload = int (length (records overlong_payload))"
    by (simp add: overlong_payload_def sample_container_def records_def vector_items_def)
  have "map (payload_view sample_mem) (records overlong_payload) = [Share sample_mem 48 1000]"
    by (simp add: overlong_payload_def records_sample_container sample_tensor_def
        payload_view_present)
  with fbc_convert_views [where GetTensors = "\<lambda>bytes. Some overlong_payload" and g = freed_nul,
      OF run ob sample_buf_peek sample_mem_map refl cnt]
  have "memory ob = [Share sample_mem 48 1000]"
    by simp
  with run ob show ?thesis
    by (simp add: sample_mem_map)
qed

section \<open>Descriptors of a well-formed container\<close>

text \<open>What lines 128 to 130 store for a name: a C string of up to 15 characters is
  stored as it is, the empty one as the absent name; of a longer name nothing is
  stored, only what the freed buffer holds.\<close>

lemma stored_name_short:
  "length s \<le> STRING_LOCAL_CAPACITY \<Longrightarrow> c_str s = s
     \<Longrightarrow> stored_name left s = (if s = [] then None else Some s)"
  by (simp add: stored_name_def chars_at_destroyed_def)

lemma stored_name_long:
  "STRING_LOCAL_CAPACITY < length s
     \<Longrightarrow> stored_name left s = (if c_str left = [] then None else Some (c_str left))"
  by (simp add: stored_name_def chars_at_destroyed_def)

lemma long_name_frame_well_formed: "well_formed long_name_frame"
  by (simp add: long_name_frame_def long_name_def sample_container_well_formed
      sample_tensor_well_formed c_str_def)

lemma long_name_frame_decode:
  "\<exists>r ob. fbc_convert (\<lambda>bytes. Some long_name_frame) g sample_buf 0 0 sample_config = Inr r
     \<and> ret r = Some ob
     \<and> type (info (config_out r) ! 0) = NNS_UINT8
     \<and> dimension (info (config_out r) ! 0) = [1, 1, 1, 1]
     \<and> name (info (config_out r) ! 0) = (if c_str (g 0) = [] then None else Some (c_str (g 0)))"
proof -
  have recs: "records long_name_frame = [sample_tensor long_name NNS_UINT8 48 4]"
    by (simp add: long_name_frame_def records_sample_container)
  have lim: "length (records long_name_frame) \<le> NNS_TENSOR_SIZE_LIMIT"
    by (simp add: recs NNS_TENSOR_SIZE_LIMIT_def)
  from fbc_convert_readable [where GetTensors = "\<lambda>bytes. Some long_name_frame" and g = g,
      OF sample_buf_peek sample_mem_map refl well_formed_readable [OF long_name_frame_well_formed]
        lim sample_config_valid, of 0 0]
  obtain r ob where run:
      "fbc_convert (\<lambda>bytes. Some long_name_frame) g sample_buf 0 0 sample_config = Inr r"
    and ob: "ret r = Some ob"
    and entries: "\<forall>k. k < length (records long_name_frame) \<longrightarrow>
            name (info (config_out r) ! k) =
              Option.bind (Tensor_name (records long_name_frame ! k)) (stored_name (g k))
          \<and> type (info (config_out r) ! k) = Tensor_type (records long_name_frame ! k)
          \<and> Tensor_dimension (records long_name_frame ! k)
              = Some (dimension (info (config_out r) ! k))"
    by blast
  have long: "STRING_LOCAL_CAPACITY < length long_name"
    by (simp add: long_name_def STRING_LOCAL_CAPACITY_def)
  from entries [rule_format, of 0]
  have "type (info (config_out r) ! 0) = NNS_UINT8"
    and "dimension (info (config_out r) ! 0) = [1, 1, 1, 1]"
    and "name (info (config_out r) ! 0) = stored_name (g 0) long_name"
    by (simp_all add: recs sample_tensor_def)
  with run ob show ?thesis
    by (auto simp: stored_name_long [OF long])
qed

text \<open>
  Claim C2. For every well-formed container with at most \<^verbatim>\<open>NNS_TENSOR_SIZE_LIMIT\<close>
  tensors a successful decode should leave in the configuration the names, types and
  shapes that the container encodes. The source does so for the types and the shapes,
  and for names of up to 15 characters; a longer name it loses. On the well-formed frame
  whose tensor has the name \<open>tensor_name_of_20_ch\<close> the decode succeeds and copies
  type and shape, but line 130 reads the name through the pointer into the string that
  line 128 has already destroyed: with freed memory that begins with a NUL the entry is
  left without a name.
\<close>

theorem long_name_not_copied:
  "well_formed long_name_frame
   \<and> Tensor_name (records long_name_frame ! 0) = Some ''tensor_name_of_20_ch''
   \<and> (\<exists>r ob. fbc_convert (\<lambda>bytes. Some long_name_frame) freed_nul sample_buf 0 0 sample_config
          = Inr r
        \<and> ret r = Some ob
        \<and> type (info (config_out r) ! 0) = NNS_UINT8
        \<and> dimension (info (config_out r) ! 0) = [1, 1, 1, 1]
        \<and> name (info (config_out r) ! 0) = None)"
proof -
  have "Tensor_name (records long_name_frame ! 0) = Some ''tensor_name_of_20_ch''"
    by (simp add: long_name_frame_def records_sample_container sample_tensor_def long_name_def)
  moreover from long_name_frame_decode [of freed_nul]
  have "\<exists>r ob. fbc_convert (\<lambda>bytes. Some long_name_frame) freed_nul sample_buf 0 0 sample_config
          = Inr r
        \<and> ret r = Some ob
        \<and> type (info (config_out r) ! 0) = NNS_UINT8
        \<and> dimension (info (config_out r) ! 0) = [1, 1, 1, 1]
        \<and> name (info (config_out r) ! 0) = None"
    by (simp add: freed_nul_def c_str_def)
  ultimately show ?thesis
    using long_name_frame_well_formed by blast
qed


lemma fbc_convert_unmapped:
  assumes run: "fbc_convert GetTensors g in_buf fs fi cfg = Inr r"
  shows "\<not> in_mapped r"
proof (cases "gst_buffer_peek_memory in_buf 0")
  case None
  with run show ?thesis by (auto simp: fbc_convert_def)
next
  case peek: (Some in_mem)
  show ?thesis
  proof (cases "gst_memory_map in_mem")
    case None
    with run peek show ?thesis by (auto simp: fbc_convert_def)
  next
    case map: (Some bytes)
    show ?thesis
    proof (cases "GetTensors bytes")
      case None
      with run peek map show ?thesis by (simp add: fbc_convert_def)
    next
      case rd: (Some t)
      show ?thesis
      proof (cases "int NNS_TENSOR_SIZE_LIMIT < num_tensor t")
        case True
        from fbc_convert_over_limit [where GetTensors = GetTensors and g = g, OF peek map rd True, of fs fi cfg]
          run show ?thesis by auto
      next
        case False
        then have le: "num_tensor t \<le> int NNS_TENSOR_SIZE_LIMIT" by simp
        show ?thesis
        proof (cases "fr t")
          case None
          with run peek map rd le show ?thesis by (simp add: fbc_convert_def)
        next
          case (Some f)
          from fbc_convert_mapped [where GetTensors = GetTensors and g = g, OF peek map rd le Some, of fs fi cfg]
            run show ?thesis by (auto split: sum.splits)
        qed
      qed
    qed
  qed
qed

section \<open>The limit on the number of tensors\<close>



text \<open>
  Claim C5, as the source has it. For every mapped container whose declared tensor count
  exceeds the limit, \<^verbatim>\<open>fbc_convert\<close> returns \<^verbatim>\<open>NULL\<close>: the output buffer is allocated
  only after the check of the limit, so no output object exists yet when the call leaves
  through the label \<^verbatim>\<open>done\<close>.
\<close>

theorem over_limit_returns_null:
  assumes "gst_buffer_peek_memory in_buf 0 = Some in_mem"
    and "gst_memory_map in_mem = Some bytes"
    and "GetTensors bytes = Some t"
    and "int NNS_TENSOR_SIZE_LIMIT < num_tensor t"
  shows "\<exists>r. fbc_convert GetTensors g in_buf fs fi cfg = Inr r \<and> ret r = None"
  using assms by (simp add: fbc_convert_over_limit [where GetTensors = GetTensors and g = g])

theorem over_limit_returns_null_witness:
  "\<exists>r. fbc_convert (\<lambda>bytes. Some seventeen_tensors) freed_nul sample_buf 0 0 sample_config = Inr r
      \<and> ret r = None"
  using over_limit_returns_null
    [where GetTensors = "\<lambda>bytes. Some seventeen_tensors" and g = freed_nul and t = seventeen_tensors,
      OF sample_buf_peek sample_mem_map refl seventeen_over_limit] .

text \<open>The claim as the spec words it, an allocated but empty output object, fails on the
  frame that declares 17 tensors: what is returned is no object.\<close>

theorem seventeen_tensors_no_output_object:
  "int NNS_TENSOR_SIZE_LIMIT < num_tensor seventeen_tensors
   \<and> map_sum id ret
       (fbc_convert (\<lambda>bytes. Some seventeen_tensors) freed_nul sample_buf 0 0 sample_config)
     = Inr None"
  using fbc_convert_over_limit
    [where GetTensors = "\<lambda>bytes. Some seventeen_tensors" and g = freed_nul and t = seventeen_tensors,
      OF sample_buf_peek sample_mem_map refl seventeen_over_limit, of 0 0 sample_config]
  by (simp add: seventeen_over_limit)

text \<open>
  Claim C4, as the source has it. When the declared tensor count exceeds the limit, the
  call returns with the tensor count of the configuration set to the declared count
  (line 113 stores it before line 114 tests it); the frame rate and every tensor entry
  of the configuration are as they were at entry.
\<close>

theorem over_limit_config:
  assumes "gst_buffer_peek_memory in_buf 0 = Some in_mem"
    and "gst_memory_map in_mem = Some bytes"
    and "GetTensors bytes = Some t"
    and "int NNS_TENSOR_SIZE_LIMIT < num_tensor t"
  shows "\<exists>r. fbc_convert GetTensors g in_buf fs fi cfg = Inr r
     \<and> num_tensors (config_out r) = word_of_int (num_tensor t)
     \<and> info (config_out r) = info cfg
     \<and> rate_n (config_out r) = rate_n cfg \<and> rate_d (config_out r) = rate_d cfg"
  using assms by (simp add: fbc_convert_over_limit [where GetTensors = GetTensors and g = g])

theorem over_limit_config_witness:
  "\<exists>r. fbc_convert (\<lambda>bytes. Some seventeen_tensors) freed_nul sample_buf 0 0 sample_config = Inr r
     \<and> num_tensors (config_out r) = 17
     \<and> info (config_out r) = info sample_config
     \<and> rate_n (config_out r) = rate_n sample_config
     \<and> rate_d (config_out r) = rate_d sample_config"
  using over_limit_config
    [where GetTensors = "\<lambda>bytes. Some seventeen_tensors" and g = freed_nul and t = seventeen_tensors,
      OF sample_buf_peek sample_mem_map refl seventeen_over_limit, of 0 0 sample_config]
  by (simp add: seventeen_declared)

text \<open>The claim as the spec words it, every field unchanged, fails on the frame that
  declares 17 tensors: the configuration held a count of 1 at entry and holds 17 at
  return.\<close>

theorem seventeen_tensors_count_written:
  "num_tensors sample_config = 1
   \<and> map_sum id (\<lambda>r. num_tensors (config_out r))
       (fbc_convert (\<lambda>bytes. Some seventeen_tensors) freed_nul sample_buf 0 0 sample_config)
     = Inr 17
   \<and> (17 :: guint) \<noteq> 1"
  using fbc_convert_over_limit
    [where GetTensors = "\<lambda>bytes. Some seventeen_tensors" and g = freed_nul and t = seventeen_tensors,
      OF sample_buf_peek sample_mem_map refl seventeen_over_limit, of 0 0 sample_config]
  by (simp add: seventeen_declared sample_config_def)

text \<open>
  Claim C10. For every input whose declared tensor count exceeds
  \<^verbatim>\<open>NNS_TENSOR_SIZE_LIMIT\<close>, \<^verbatim>\<open>fbc_convert\<close> returns \<^verbatim>\<open>NULL\<close>, leaves the caller's
  \<^verbatim>\<open>frame_size\<close> and \<^verbatim>\<open>frames_in\<close> as they were at entry, and has released the mapping
  of the input block when it returns.
\<close>

theorem over_limit_keeps_out_parameters:
  assumes "gst_buffer_peek_memory in_buf 0 = Some in_mem"
    and "gst_memory_map in_mem = Some bytes"
    and "GetTensors bytes = Some t"
    and "int NNS_TENSOR_SIZE_LIMIT < num_tensor t"
  shows "\<exists>r. fbc_convert GetTensors g in_buf fs fi cfg = Inr r \<and> ret r = None
           \<and> frame_size_out r = fs \<and> frames_in_out r = fi \<and> \<not> in_mapped r"
  using assms by (simp add: fbc_convert_over_limit [where GetTensors = GetTensors and g = g])

theorem over_limit_keeps_out_parameters_witness:
  "\<exists>r. fbc_convert (\<lambda>bytes. Some seventeen_tensors) freed_nul sample_buf 5 9 sample_config = Inr r
       \<and> ret r = None \<and> frame_size_out r = 5 \<and> frames_in_out r = 9 \<and> \<not> in_mapped r"
  using over_limit_keeps_out_parameters
    [where GetTensors = "\<lambda>bytes. Some seventeen_tensors" and g = freed_nul and t = seventeen_tensors,
      OF sample_buf_peek sample_mem_map refl seventeen_over_limit] .

section \<open>A container without tensors\<close>

text \<open>
  Claim C8. A well-formed container whose declared tensor count is 0 decodes
  successfully: the configuration holds a count of 0 and the output buffer has no memory
  blocks, with the timestamps of the input buffer copied into it.
\<close>

theorem zero_tensors_decode:
  assumes peek: "gst_buffer_peek_memory in_buf 0 = Some in_mem"
    and map: "gst_memory_map in_mem = Some bytes"
    and rd: "GetTensors bytes = Some t"
    and wf: "well_formed t"
    and zero: "num_tensor t = 0"
  shows "\<exists>r ob. fbc_convert GetTensors g in_buf fs fi cfg = Inr r \<and> ret r = Some ob
     \<and> num_tensors (config_out r) = 0 \<and> memory ob = []
     \<and> pts ob = pts in_buf \<and> dts ob = dts in_buf \<and> duration ob = duration in_buf
     \<and> buf_offset ob = buf_offset in_buf \<and> buf_offset_end ob = buf_offset_end in_buf"
proof -
  from wf obtain f where f: "fr t = Some f"
    by (auto simp: well_formed_def split: option.splits)
  from zero have le: "num_tensor t \<le> int NNS_TENSOR_SIZE_LIMIT" by simp
  let ?start = "\<lparr>st_config = cfg\<lparr>num_tensors := word_of_int (num_tensor t),
                          rate_n := fr_rate_n f, rate_d := fr_rate_d f\<rparr>,
         st_out_buf = gst_buffer_new, st_frame_size = 0\<rparr>"
  have loop: "convert_loop g in_mem (tensor t) 0 ?start = Inr ?start"
    using zero by (simp add: convert_loop_exit)
  have "fbc_convert GetTensors g in_buf fs fi cfg =
      Inr \<lparr>ret = Some (gst_buffer_copy_into gst_buffer_new in_buf),
           frame_size_out = 0, frames_in_out = 1,
           config_out = cfg\<lparr>num_tensors := word_of_int (num_tensor t),
                             rate_n := fr_rate_n f, rate_d := fr_rate_d f\<rparr>,
           in_mapped = False\<rparr>"
    unfolding fbc_convert_mapped [where GetTensors = GetTensors and g = g, OF peek map rd le f] loop
    by simp
  then show ?thesis
    using zero by (simp add: gst_buffer_copy_into_def gst_buffer_new_def)
qed

theorem zero_tensors_decode_witness:
  "\<exists>r ob. fbc_convert (\<lambda>bytes. Some no_tensors) freed_nul sample_buf 5 9 sample_config = Inr r
     \<and> ret r = Some ob \<and> num_tensors (config_out r) = 0 \<and> memory ob = []
     \<and> pts ob = 1000 \<and> dts ob = 990 \<and> duration ob = 33
     \<and> buf_offset ob = 7 \<and> buf_offset_end ob = 8"
proof -
  have zero: "num_tensor no_tensors = 0"
    by (simp add: no_tensors_def sample_container_def)
  from zero_tensors_decode [where GetTensors = "\<lambda>bytes. Some no_tensors" and g = freed_nul,
      OF sample_buf_peek sample_mem_map refl no_tensors_well_formed zero, of 5 9 sample_config]
  show ?thesis
    by (simp add: sample_buf_def)
qed

section \<open>A buffer that is not a container\<close>

text \<open>
  Claim C9, as the source has it. \<^verbatim>\<open>fbc_convert\<close> has no parse-error result and
  validates nothing: what the reader presents for the mapped bytes is used as it stands.
  The call returns \<^verbatim>\<open>NULL\<close> only when the declared count exceeds the limit. On every
  other buffer it returns an output buffer or does not return at all; when the frame
  rate is absent, as it is in a block of zero bytes, line 118 dereferences a null
  pointer and the call ends there. Every call that does return has released the mapping.
\<close>

theorem unvalidated_buffer_outcomes:
  assumes peek: "gst_buffer_peek_memory in_buf 0 = Some in_mem"
    and map: "gst_memory_map in_mem = Some bytes"
    and rd: "GetTensors bytes = Some t"
  shows "(num_tensor t \<le> int NNS_TENSOR_SIZE_LIMIT \<and> fr t = None \<longrightarrow>
            fbc_convert GetTensors g in_buf fs fi cfg = Inl NullPointer)
     \<and> (\<forall>r. fbc_convert GetTensors g in_buf fs fi cfg = Inr r \<longrightarrow>
            (ret r = None) = (int NNS_TENSOR_SIZE_LIMIT < num_tensor t) \<and> \<not> in_mapped r)"
proof (intro conjI impI allI)
  assume "num_tensor t \<le> int NNS_TENSOR_SIZE_LIMIT \<and> fr t = None"
  with peek map rd show "fbc_convert GetTensors g in_buf fs fi cfg = Inl NullPointer"
    by (simp add: fbc_convert_def)
next
  fix r
  assume run: "fbc_convert GetTensors g in_buf fs fi cfg = Inr r"
  show "(ret r = None) = (int NNS_TENSOR_SIZE_LIMIT < num_tensor t)"
  proof (cases "int NNS_TENSOR_SIZE_LIMIT < num_tensor t")
    case True
    from fbc_convert_over_limit [where GetTensors = GetTensors and g = g,
        OF peek map rd True, of fs fi cfg] run True
    show ?thesis by auto
  next
    case False
    then have le: "num_tensor t \<le> int NNS_TENSOR_SIZE_LIMIT" by simp
    from run peek map rd le obtain f where f: "fr t = Some f"
      by (cases "fr t") (simp_all add: fbc_convert_def)
    from fbc_convert_mapped [where GetTensors = GetTensors and g = g,
        OF peek map rd le f, of fs fi cfg] run
    have "ret r \<noteq> None"
      by (auto split: sum.splits)
    with False show ?thesis by simp
  qed
next
  fix r
  assume "fbc_convert GetTensors g in_buf fs fi cfg = Inr r"
  then show "\<not> in_mapped r"
    by (rule fbc_convert_unmapped)
qed

theorem unvalidated_buffer_outcomes_witness:
  "fbc_convert (\<lambda>bytes. Some zero_block_root) freed_nul sample_buf 0 0 sample_config
     = Inl NullPointer
   \<and> (\<exists>r. fbc_convert (\<lambda>bytes. Some two_tensors) freed_nul sample_buf 0 0 sample_config = Inr r
         \<and> ret r \<noteq> None \<and> \<not> in_mapped r)
   \<and> (\<exists>r. fbc_convert (\<lambda>bytes. Some seventeen_tensors) freed_nul sample_buf 0 0 sample_config
           = Inr r
         \<and> ret r = None \<and> \<not> in_mapped r)"
proof -
  have zero: "num_tensor zero_block_root \<le> int NNS_TENSOR_SIZE_LIMIT \<and> fr zero_block_root = None"
    by (simp add: zero_block_root_def)
  from unvalidated_buffer_outcomes [where GetTensors = "\<lambda>bytes. Some zero_block_root"
      and g = freed_nul, OF sample_buf_peek sample_mem_map refl, of 0 0 sample_config] zero
  have one: "fbc_convert (\<lambda>bytes. Some zero_block_root) freed_nul sample_buf 0 0 sample_config
     = Inl NullPointer"
    by blast
  from two_tensors_decode obtain r
    where run: "fbc_convert (\<lambda>bytes. Some two_tensors) freed_nul sample_buf 0 0 sample_config
        = Inr r"
    by blast
  have under: "\<not> int NNS_TENSOR_SIZE_LIMIT < num_tensor two_tensors"
    by (simp add: two_tensors_def sample_container_def NNS_TENSOR_SIZE_LIMIT_def)
  from unvalidated_buffer_outcomes [where GetTensors = "\<lambda>bytes. Some two_tensors"
      and g = freed_nul, OF sample_buf_peek sample_mem_map refl, of 0 0 sample_config] run under
  have "ret r \<noteq> None \<and> \<not> in_mapped r"
    by blast
  with run have two: "\<exists>r.
      fbc_convert (\<lambda>bytes. Some two_tensors) freed_nul sample_buf 0 0 sample_config = Inr r
      \<and> ret r \<noteq> None \<and> \<not> in_mapped r"
    by blast
  from fbc_convert_over_limit [where GetTensors = "\<lambda>bytes. Some seventeen_tensors"
      and g = freed_nul and t = seventeen_tensors,
      OF sample_buf_peek sample_mem_map refl seventeen_over_limit, of 0 0 sample_config]
  obtain r' where run': "fbc_convert (\<lambda>bytes. Some seventeen_tensors) freed_nul sample_buf 0 0
      sample_config = Inr r'"
    by blast
  from unvalidated_buffer_outcomes [where GetTensors = "\<lambda>bytes. Some seventeen_tensors"
      and g = freed_nul, OF sample_buf_peek sample_mem_map refl, of 0 0 sample_config]
    run' seventeen_over_limit
  have "ret r' = None \<and> \<not> in_mapped r'"
    by blast
  with run' have three: "\<exists>r.
      fbc_convert (\<lambda>bytes. Some seventeen_tensors) freed_nul sample_buf 0 0 sample_config = Inr r
      \<and> ret r = None \<and> \<not> in_mapped r"
    by blast
  from one two three show ?thesis by blast
qed

text \<open>The claim as the spec words it, a failure result and a process that goes on,
  fails on the block of 64 zero bytes: the reader finds a root without fields in it, and
  the call ends in the null dereference of line 118 instead of returning.\<close>

theorem zero_block_null_dereference:
  "gst_buffer_peek_memory sample_buf 0 = Some sample_mem
   \<and> gst_memory_map sample_mem = Some (replicate 64 0)
   \<and> fbc_convert (\<lambda>bytes. Some zero_block_root) freed_nul sample_buf 0 0 sample_config
       = Inl NullPointer"
  by (simp add: fbc_convert_def sample_buf_peek sample_mem_map zero_block_root_def
      NNS_TENSOR_SIZE_LIMIT_def)

section \<open>The provisional configuration\<close>

lemma parse_initial_dimension: "gst_tensor_parse_dimension ''1:1:1:1'' = (4, [1, 1, 1, 1])"
  by (simp add: gst_tensor_parse_dimension_def NNS_TENSOR_RANK_LIMIT_def strtoull_def
      is_digit_def)

lemma fbc_get_out_config_structure:
  assumes "in_cap = Some caps" and "gst_caps_get_structure caps 0 = Some structure"
  shows "\<exists>c. fbc_get_out_config in_cap (Some c0) = (True, Some c)
     \<and> num_tensors c = 1 \<and> type (info c ! 0) = NNS_UINT8
     \<and> dimension (info c ! 0) = [1, 1, 1, 1]
     \<and> (\<forall>n d. gst_structure_get_fraction structure ''framerate'' = Some (n, d)
           \<longrightarrow> rate_n c = n \<and> rate_d c = d)
     \<and> (\<not> gst_structure_has_field structure ''framerate''
           \<longrightarrow> rate_n c = 0 \<and> rate_d c = 1)"
proof -
  have has: "gst_structure_has_field structure ''framerate''"
    if "gst_structure_get_fraction structure ''framerate'' = Some (n, d)" for n d
    using that
    by (auto simp: gst_structure_has_field_def gst_structure_get_fraction_def
        split: option.splits)
  have len: "0 < length (info gst_tensors_config_init)"
    by (simp add: gst_tensors_config_init_def NNS_TENSOR_SIZE_LIMIT_def)
  show ?thesis
  proof (cases "gst_structure_has_field structure ''framerate''")
    case False
    with has have "gst_structure_get_fraction structure ''framerate'' = None"
      by (cases "gst_structure_get_fraction structure ''framerate''") auto
    with False assms len show ?thesis
      by (simp add: fbc_get_out_config_def parse_initial_dimension)
  next
    case True
    show ?thesis
    proof (cases "gst_structure_get_fraction structure ''framerate''")
      case None
      with True assms len show ?thesis
        by (simp add: fbc_get_out_config_def parse_initial_dimension)
    next
      case (Some p)
      obtain n d where "p = (n, d)" by (cases p)
      with Some True assms len show ?thesis
        by (simp add: fbc_get_out_config_def parse_initial_dimension)
    qed
  qed
qed

lemma fbc_get_out_config_no_structure:
  assumes "in_cap = None \<or> (\<exists>caps. in_cap = Some caps \<and> gst_caps_get_structure caps 0 = None)"
  shows "fst (fbc_get_out_config in_cap (Some c0)) = False"
  using assms by (auto simp: fbc_get_out_config_def)

text \<open>
  Claim C7. For every type-parameter structure that is present (the capabilities are not
  null and hold a first structure), \<^verbatim>\<open>fbc_get_out_config\<close> succeeds and gives a
  configuration of one tensor of type uint8 and shape 1:1:1:1; its frame rate is the
  fraction of the structure's frame-rate field when the field is there, and 0/1 when it
  is not. The call fails only when the structure is null or absent.
\<close>

theorem get_out_config_placeholder:
  "(fst (fbc_get_out_config in_cap (Some c0))
      \<longleftrightarrow> (\<exists>caps structure. in_cap = Some caps
              \<and> gst_caps_get_structure caps 0 = Some structure))
   \<and> (\<forall>caps structure. in_cap = Some caps \<and> gst_caps_get_structure caps 0 = Some structure
        \<longrightarrow> (\<exists>c. fbc_get_out_config in_cap (Some c0) = (True, Some c)
              \<and> num_tensors c = 1 \<and> type (info c ! 0) = NNS_UINT8
              \<and> dimension (info c ! 0) = [1, 1, 1, 1]
              \<and> (\<forall>n d. gst_structure_get_fraction structure ''framerate'' = Some (n, d)
                    \<longrightarrow> rate_n c = n \<and> rate_d c = d)
              \<and> (\<not> gst_structure_has_field structure ''framerate''
                    \<longrightarrow> rate_n c = 0 \<and> rate_d c = 1)))"
proof (intro conjI allI impI)
  show "fst (fbc_get_out_config in_cap (Some c0))
      \<longleftrightarrow> (\<exists>caps structure. in_cap = Some caps
              \<and> gst_caps_get_structure caps 0 = Some structure)"
  proof (cases "\<exists>caps structure. in_cap = Some caps
              \<and> gst_caps_get_structure caps 0 = Some structure")
    case True
    then obtain caps str where "in_cap = Some caps"
      "gst_caps_get_structure caps 0 = Some str"
      by blast
    from fbc_get_out_config_structure [OF this, of c0] True show ?thesis
      by auto
  next
    case False
    then have "in_cap = None
        \<or> (\<exists>caps. in_cap = Some caps \<and> gst_caps_get_structure caps 0 = None)"
      by (cases in_cap) auto
    from fbc_get_out_config_no_structure [OF this, of c0] False show ?thesis
      by simp
  qed
next
  fix caps str
  assume "in_cap = Some caps \<and> gst_caps_get_structure caps 0 = Some str"
  then have "in_cap = Some caps" "gst_caps_get_structure caps 0 = Some str"
    by simp_all
  then show "\<exists>c. fbc_get_out_config in_cap (Some c0) = (True, Some c)
              \<and> num_tensors c = 1 \<and> type (info c ! 0) = NNS_UINT8
              \<and> dimension (info c ! 0) = [1, 1, 1, 1]
              \<and> (\<forall>n d. gst_structure_get_fraction str ''framerate'' = Some (n, d)
                    \<longrightarrow> rate_n c = n \<and> rate_d c = d)
              \<and> (\<not> gst_structure_has_field str ''framerate''
                    \<longrightarrow> rate_n c = 0 \<and> rate_d c = 1)"
    by (rule fbc_get_out_config_structure)
qed

theorem get_out_config_placeholder_witness:
  "\<not> fst (fbc_get_out_config None (Some sample_config))
   \<and> (\<exists>c. fbc_get_out_config (Some sample_caps) (Some sample_config) = (True, Some c)
         \<and> num_tensors c = 1 \<and> type (info c ! 0) = NNS_UINT8
         \<and> dimension (info c ! 0) = [1, 1, 1, 1] \<and> rate_n c = 30 \<and> rate_d c = 1)
   \<and> (\<exists>c. fbc_get_out_config (Some [[]]) (Some sample_config) = (True, Some c)
         \<and> num_tensors c = 1 \<and> type (info c ! 0) = NNS_UINT8
         \<and> dimension (info c ! 0) = [1, 1, 1, 1] \<and> rate_n c = 0 \<and> rate_d c = 1)"
proof -
  have absent: "\<not> fst (fbc_get_out_config None (Some sample_config))"
    using get_out_config_placeholder [of None sample_config] by simp
  have first: "gst_caps_get_structure sample_caps 0 = Some [(''framerate'', G_FRACTION 30 1)]"
    by (simp add: gst_caps_get_structure_def sample_caps_def)
  have rate: "gst_structure_get_fraction [(''framerate'', G_FRACTION 30 1)] ''framerate''
      = Some (30, 1)"
    by (simp add: gst_structure_get_fraction_def)
  from get_out_config_placeholder [of "Some sample_caps" sample_config] first rate
  have with_rate: "\<exists>c. fbc_get_out_config (Some sample_caps) (Some sample_config) = (True, Some c)
         \<and> num_tensors c = 1 \<and> type (info c ! 0) = NNS_UINT8
         \<and> dimension (info c ! 0) = [1, 1, 1, 1] \<and> rate_n c = 30 \<and> rate_d c = 1"
    by fastforce
  have bare: "gst_caps_get_structure [[]] 0 = Some []"
    by (simp add: gst_caps_get_structure_def)
  have no_field: "\<not> gst_structure_has_field [] ''framerate''"
    by (simp add: gst_structure_has_field_def)
  from get_out_config_placeholder [of "Some [[]]" sample_config] bare no_field
  have without_rate: "\<exists>c. fbc_get_out_config (Some [[]]) (Some sample_config) = (True, Some c)
         \<and> num_tensors c = 1 \<and> type (info c ! 0) = NNS_UINT8
         \<and> dimension (info c ! 0) = [1, 1, 1, 1] \<and> rate_n c = 0 \<and> rate_d c = 1"
    by fastforce
  from absent with_rate without_rate show ?thesis
    by blast
qed

end
